theory Spec2Isabelle
  imports
    Complex_Main
    "HOL-Library.Sublist"
    "HOL-Library.Char_ord"
    "HOL-Library.List_Lexorder"
    "HOL-Library.Multiset"
begin

section \<open>Gabor texture batch (main.py)\<close>

text \<open>
  The script has two functions: \<open>extraire_texture_gabor\<close> (load one image, grayscale
  it, filter it with a Gabor kernel) and \<open>balayer_et_traiter_images\<close> (find the
  fragment images of a directory, filter each one and save the result).

  Everything the script does to the outside goes through a library call: \<open>glob\<close>,
  \<open>os.path\<close>, \<open>os.makedirs\<close> and OpenCV. The model keeps the two functions as they
  are written and makes the outside explicit:
  \<^item> the world is a file system (regular files with their bytes, directories) and a
    trace of the events of the run, in order: every library call and every line printed;
  \<^item> a call that can raise returns \<open>Inl\<close> of the exception, so that \<open>try\<close>/\<open>except\<close> and
    an exception that nothing catches are both branches of the model;
  \<^item> what OpenCV computes on pixels (decoding, colour conversion, the kernel, the
    convolution, PNG encoding) and what \<open>glob\<close> lists are parameters, collected in the
    record \<open>env\<close>: the theorems hold for every such environment.
\<close>

subsection \<open>Strings and paths\<close>

type_synonym path = string
type_synonym bytes = "nat list"

text \<open>\<open>os.path\<close> as \<open>posixpath\<close> has it: the separator is the slash.\<close>

definition sep :: char where
  "sep = CHR ''/''"

text \<open>
  \<open>posixpath.join(a, b)\<close>: an absolute \<open>b\<close> replaces \<open>a\<close>; otherwise \<open>b\<close> is appended,
  after a separator unless \<open>a\<close> is empty or already ends with one.
\<close>

definition join :: "path \<Rightarrow> path \<Rightarrow> path" where
  "join a b =
     (if b \<noteq> [] \<and> hd b = sep then b
      else if a = [] \<or> last a = sep then a @ b
      else a @ [sep] @ b)"

text \<open>\<open>posixpath.basename(p)\<close>: \<open>p[p.rfind('/') + 1:]\<close>.\<close>

definition basename :: "path \<Rightarrow> path" where
  "basename p = rev (takeWhile (\<lambda>c. c \<noteq> sep) (rev p))"

text \<open>
  \<open>posixpath.dirname(p)\<close>: \<open>head = p[:p.rfind('/') + 1]\<close>, with its trailing slashes
  stripped unless it consists of slashes only.
\<close>

definition dirname :: "path \<Rightarrow> path" where
  "dirname p =
     (let head = rev (dropWhile (\<lambda>c. c \<noteq> sep) (rev p))
      in if head \<noteq> [] \<and> \<not> list_all (\<lambda>c. c = sep) head
         then rev (dropWhile (\<lambda>c. c = sep) (rev head))
         else head)"

text \<open>
  \<open>s.replace(old, new)\<close> for a non-empty \<open>old\<close>: every occurrence of \<open>old\<close>, found from
  left to right without overlap, is replaced. (The script only calls it with
  \<open>old = '.ppm'\<close>; an empty \<open>old\<close> leaves the string as it is here.)
\<close>

function str_replace :: "string \<Rightarrow> string \<Rightarrow> string \<Rightarrow> string" where
  "str_replace old new [] = []"
| "str_replace old new (c # cs) =
     (if old \<noteq> [] \<and> prefix old (c # cs)
      then new @ str_replace old new (drop (length old) (c # cs))
      else c # str_replace old new cs)"
  by pat_completeness auto
termination
  by (relation "measure (\<lambda>(old, new, s). length s)") auto

text \<open>
  The directories above a path: its proper prefixes that stop just before a separator
  (\<open>a/b/c\<close> has \<open>a\<close> and \<open>a/b\<close>).
\<close>

definition ancestors :: "path \<Rightarrow> path list" where
  "ancestors p =
     filter (\<lambda>q. q \<noteq> [] \<and> length q < length p \<and> p ! length q = sep \<and> last q \<noteq> sep)
       (prefixes p)"

subsection \<open>Images, exceptions, events, the world\<close>

text \<open>
  An OpenCV matrix (a numpy array on the Python side): its size, its number of
  channels, the depth code of its samples and the samples themselves.
\<close>

record mat =
  rows :: nat
  cols :: nat
  channels :: nat
  depth :: nat
  samples :: "real list"

text \<open>
  OpenCV's constants, as its headers define them. A type code packs the depth in its
  three low bits and the number of channels minus one above them, so that
  \<open>CV_8UC3 = 0 + 2 * 8\<close>; \<open>CV_MAT_DEPTH\<close> reads the depth back.
\<close>

definition CV_8U :: nat where "CV_8U = 0"
definition CV_32F :: nat where "CV_32F = 5"
definition CV_8UC3 :: nat where "CV_8UC3 = 16"
definition COLOR_BGR2GRAY :: nat where "COLOR_BGR2GRAY = 6"

definition CV_MAT_DEPTH :: "nat \<Rightarrow> nat" where
  "CV_MAT_DEPTH flags = flags mod 8"

text \<open>\<open>img.shape\<close> of a numpy array: two dimensions for one channel, three otherwise.\<close>

definition shape :: "mat \<Rightarrow> nat list" where
  "shape m = (if channels m = 1 then [rows m, cols m] else [rows m, cols m, channels m])"

text \<open>The exceptions of the model; all of them are subclasses of \<open>Exception\<close>.\<close>

datatype exn =
    Cv2Error string
  | FileExistsError path
  | NotADirectoryError path

text \<open>The lines the script prints, one constructor for each \<open>print\<close> of the source.\<close>

datatype message =
    Erreur_chargement path
  | Erreur_traitement path exn
  | Aucune_image path
  | Demarrage nat
  | Texture_extraite string "nat list"
  | Image_enregistree path
  | Traitement_termine

datatype event =
    Print message
  | Call_extraire path int real real real real
  | Call_glob string
  | Call_imread path
  | Call_cvtColor nat
  | Call_getGaborKernel int int real real real real real nat
  | Call_filter2D nat
  | Call_makedirs path
  | Call_imwrite path mat

record world =
  files :: "path \<rightharpoonup> bytes"
  dirs :: "path set"
  trace :: "event list"

definition emit :: "event \<Rightarrow> world \<Rightarrow> world" where
  "emit ev w = w\<lparr>trace := trace w @ [ev]\<rparr>"

definition print :: "message \<Rightarrow> world \<Rightarrow> world" where
  "print m w = emit (Print m) w"

subsection \<open>The libraries\<close>

text \<open>
  What the libraries compute. \<open>imdecode\<close> is the decoder behind \<open>cv2.imread\<close> (\<open>None\<close>
  for bytes that are not an image), \<open>imencode\<close> the encoder behind \<open>cv2.imwrite\<close>,
  chosen by the extension of the file name. \<open>glob_fn\<close> is \<open>glob.glob\<close>: the paths that
  match a pattern in a file system, in no particular order.
\<close>

record env =
  glob_fn :: "(path \<rightharpoonup> bytes) \<Rightarrow> path set \<Rightarrow> string \<Rightarrow> path list"
  imdecode :: "bytes \<Rightarrow> exn + mat option"
  cvtColor_fn :: "mat \<Rightarrow> nat \<Rightarrow> exn + mat"
  getGaborKernel_fn :: "int \<times> int \<Rightarrow> real \<Rightarrow> real \<Rightarrow> real \<Rightarrow> real \<Rightarrow> real \<Rightarrow> nat \<Rightarrow> exn + mat"
  filter2D_fn :: "mat \<Rightarrow> nat \<Rightarrow> mat \<Rightarrow> exn + mat"
  imencode :: "path \<Rightarrow> mat \<Rightarrow> exn + bytes"

definition glob_glob :: "env \<Rightarrow> string \<Rightarrow> world \<Rightarrow> path list \<times> world" where
  "glob_glob E pathname w =
     (glob_fn E (files w) (dirs w) pathname, emit (Call_glob pathname) w)"

text \<open>\<open>cv2.imread\<close>: \<open>None\<close> when there is no such file or its bytes do not decode.\<close>

definition cv2_imread :: "env \<Rightarrow> path \<Rightarrow> world \<Rightarrow> (exn + mat option) \<times> world" where
  "cv2_imread E filename w =
     (case files w filename of
        None \<Rightarrow> Inr None
      | Some b \<Rightarrow> imdecode E b,
      emit (Call_imread filename) w)"

definition cv2_cvtColor :: "env \<Rightarrow> mat \<Rightarrow> nat \<Rightarrow> world \<Rightarrow> (exn + mat) \<times> world" where
  "cv2_cvtColor E src code w = (cvtColor_fn E src code, emit (Call_cvtColor code) w)"

definition cv2_getGaborKernel ::
  "env \<Rightarrow> int \<times> int \<Rightarrow> real \<Rightarrow> real \<Rightarrow> real \<Rightarrow> real \<Rightarrow> real \<Rightarrow> nat \<Rightarrow> world \<Rightarrow> (exn + mat) \<times> world"
where
  "cv2_getGaborKernel E ksize sigma theta lambd gamma psi ktype w =
     (getGaborKernel_fn E ksize sigma theta lambd gamma psi ktype,
      emit (Call_getGaborKernel (fst ksize) (snd ksize) sigma theta lambd gamma psi ktype) w)"

definition cv2_filter2D :: "env \<Rightarrow> mat \<Rightarrow> nat \<Rightarrow> mat \<Rightarrow> world \<Rightarrow> (exn + mat) \<times> world" where
  "cv2_filter2D E src ddepth kern w =
     (filter2D_fn E src ddepth kern, emit (Call_filter2D ddepth) w)"

text \<open>
  \<open>os.makedirs(name, exist_ok=True)\<close>: creates \<open>name\<close> and the directories above it
  that are missing; an existing directory is not an error, a regular file in the way is.
\<close>

definition os_makedirs :: "path \<Rightarrow> world \<Rightarrow> (exn + unit) \<times> world" where
  "os_makedirs name w =
     (let w' = emit (Call_makedirs name) w
      in if \<exists>q \<in> set (ancestors name). files w q \<noteq> None then (Inl (NotADirectoryError name), w')
         else if files w name \<noteq> None then (Inl (FileExistsError name), w')
         else (Inr (), w'\<lparr>dirs := dirs w \<union> set (ancestors name) \<union> {name}\<rparr>))"

text \<open>
  \<open>cv2.imwrite(filename, img)\<close>: raises when the image cannot be encoded for this
  extension; returns \<open>False\<close>, writing nothing, when the file cannot be opened (its
  directory is missing, or the name is a directory); otherwise replaces the file.
\<close>

definition cv2_imwrite :: "env \<Rightarrow> path \<Rightarrow> mat \<Rightarrow> world \<Rightarrow> (exn + bool) \<times> world" where
  "cv2_imwrite E filename img w =
     (let w' = emit (Call_imwrite filename img) w
      in case imencode E filename img of
           Inl e \<Rightarrow> (Inl e, w')
         | Inr data \<Rightarrow>
             if (dirname filename = [] \<or> dirname filename \<in> dirs w) \<and> filename \<notin> dirs w
             then (Inr True, w'\<lparr>files := (files w)(filename \<mapsto> data)\<rparr>)
             else (Inr False, w'))"

subsection \<open>The filter step: \<open>extraire_texture_gabor\<close>\<close>

text \<open>The body of the \<open>try\<close> block (lines 26 to 39).\<close>

definition extraire_corps ::
  "env \<Rightarrow> path \<Rightarrow> int \<Rightarrow> real \<Rightarrow> real \<Rightarrow> real \<Rightarrow> real \<Rightarrow> world
     \<Rightarrow> (exn + string \<times> mat option) \<times> world"
where
  "extraire_corps E image_path ksize sigma theta lambd gamma w =
     (case cv2_imread E image_path w of
        (Inl e, w1) \<Rightarrow> (Inl e, w1)
      | (Inr None, w1) \<Rightarrow>
          (Inr (basename image_path, None), print (Erreur_chargement image_path) w1)
      | (Inr (Some img), w1) \<Rightarrow>
          (case cv2_cvtColor E img COLOR_BGR2GRAY w1 of
             (Inl e, w2) \<Rightarrow> (Inl e, w2)
           | (Inr gray, w2) \<Rightarrow>
               (case cv2_getGaborKernel E (ksize, ksize) sigma theta lambd gamma 0 CV_32F w2 of
                  (Inl e, w3) \<Rightarrow> (Inl e, w3)
                | (Inr kern, w3) \<Rightarrow>
                    (case cv2_filter2D E gray CV_8UC3 kern w3 of
                       (Inl e, w4) \<Rightarrow> (Inl e, w4)
                     | (Inr filtered_image, w4) \<Rightarrow>
                         (Inr (basename image_path, Some filtered_image), w4)))))"

text \<open>
  The function: the \<open>try\<close> block, and the handler of \<open>except Exception\<close> (lines 41 to
  43). The first event records the call with the arguments it received.
\<close>

definition extraire_texture_gabor ::
  "env \<Rightarrow> path \<Rightarrow> int \<Rightarrow> real \<Rightarrow> real \<Rightarrow> real \<Rightarrow> real \<Rightarrow> world
     \<Rightarrow> (exn + string \<times> mat option) \<times> world"
where
  "extraire_texture_gabor E image_path ksize sigma theta lambd gamma w =
     (case extraire_corps E image_path ksize sigma theta lambd gamma
             (emit (Call_extraire image_path ksize sigma theta lambd gamma) w) of
        (Inr r, w') \<Rightarrow> (Inr r, w')
      | (Inl e, w') \<Rightarrow>
          (Inr (basename image_path, None), print (Erreur_traitement image_path e) w'))"

text \<open>
  \<open>np.pi\<close> is a Python float: the double nearest to \<open>\<pi>\<close>, which is this fraction
  exactly (its denominator is \<open>2 ^ 48\<close>). Dividing it by 4 is exact in floating point, and
  so are the literals \<open>4.0\<close>, \<open>5.0\<close>, \<open>10.0\<close> and \<open>0.5\<close>: the parameters of the script
  are these rational numbers.
\<close>

definition np_pi :: real where
  "np_pi = 884279719003555 / 281474976710656"

text \<open>
  The keyword arguments of a call, and the defaults of the signature (line 7) for those
  that are not given.
\<close>

record gabor_kwargs =
  kw_ksize :: "int option"
  kw_sigma :: "real option"
  kw_theta :: "real option"
  kw_lambd :: "real option"
  kw_gamma :: "real option"

definition extraire_texture_gabor_kw ::
  "env \<Rightarrow> path \<Rightarrow> gabor_kwargs \<Rightarrow> world \<Rightarrow> (exn + string \<times> mat option) \<times> world"
where
  "extraire_texture_gabor_kw E image_path kw w =
     extraire_texture_gabor E image_path
       (case kw_ksize kw of None \<Rightarrow> 31 | Some k \<Rightarrow> k)
       (case kw_sigma kw of None \<Rightarrow> 4 | Some s \<Rightarrow> s)
       (case kw_theta kw of None \<Rightarrow> np_pi / 4 | Some t \<Rightarrow> t)
       (case kw_lambd kw of None \<Rightarrow> 10 | Some l \<Rightarrow> l)
       (case kw_gamma kw of None \<Rightarrow> 1 / 2 | Some g \<Rightarrow> g)
       w"

subsection \<open>The batch runner: \<open>balayer_et_traiter_images\<close>\<close>

text \<open>The dictionary \<open>gabor_params\<close> (lines 57 to 63).\<close>

definition gabor_params :: gabor_kwargs where
  "gabor_params =
     \<lparr>kw_ksize = Some 31, kw_sigma = Some 5, kw_theta = Some (np_pi / 4),
      kw_lambd = Some 10, kw_gamma = Some (1 / 2)\<rparr>"

definition repertoire_sortie :: "path \<Rightarrow> path" where
  "repertoire_sortie repertoire_racine = join repertoire_racine ''textures_traitees''"

definition nom_sortie :: "string \<Rightarrow> string" where
  "nom_sortie nom_fichier = ''texture_'' @ str_replace ''.ppm'' ''.png'' nom_fichier"

text \<open>
  The body of the \<open>for\<close> loop (lines 67 to 82), for one path. Nothing catches an
  exception of \<open>os.makedirs\<close> or \<open>cv2.imwrite\<close>: it leaves the body, the loop and the
  function. The value \<open>cv2.imwrite\<close> returns is not looked at.
\<close>

definition corps_boucle :: "env \<Rightarrow> path \<Rightarrow> path \<Rightarrow> world \<Rightarrow> (exn + unit) \<times> world" where
  "corps_boucle E repertoire_racine image_path w =
     (case extraire_texture_gabor_kw E image_path gabor_params w of
        (Inl e, w1) \<Rightarrow> (Inl e, w1)
      | (Inr (nom_fichier, None), w1) \<Rightarrow> (Inr (), w1)
      | (Inr (nom_fichier, Some texture_image), w1) \<Rightarrow>
          (case os_makedirs (repertoire_sortie repertoire_racine)
                  (print (Texture_extraite nom_fichier (shape texture_image)) w1) of
             (Inl e, w2) \<Rightarrow> (Inl e, w2)
           | (Inr u, w2) \<Rightarrow>
               (case cv2_imwrite E
                       (join (repertoire_sortie repertoire_racine) (nom_sortie nom_fichier))
                       texture_image w2 of
                  (Inl e, w3) \<Rightarrow> (Inl e, w3)
                | (Inr ok, w3) \<Rightarrow>
                    (Inr (),
                     print (Image_enregistree
                              (join (repertoire_sortie repertoire_racine)
                                 (nom_sortie nom_fichier))) w3))))"

text \<open>The \<open>for\<close> loop (line 66): the body for each path in turn, until one raises.\<close>

fun boucle :: "env \<Rightarrow> path \<Rightarrow> path list \<Rightarrow> world \<Rightarrow> (exn + unit) \<times> world" where
  "boucle E repertoire_racine [] w = (Inr (), w)"
| "boucle E repertoire_racine (image_path # reste) w =
     (case corps_boucle E repertoire_racine image_path w of
        (Inl e, w1) \<Rightarrow> (Inl e, w1)
      | (Inr u, w1) \<Rightarrow> boucle E repertoire_racine reste w1)"

definition chemin_recherche :: "path \<Rightarrow> string" where
  "chemin_recherche repertoire_racine = join repertoire_racine ''frag_eroded_*.ppm''"

definition balayer_et_traiter_images :: "env \<Rightarrow> path \<Rightarrow> world \<Rightarrow> (exn + unit) \<times> world" where
  "balayer_et_traiter_images E repertoire_racine w =
     (case glob_glob E (chemin_recherche repertoire_racine) w of
        (found, w0) \<Rightarrow>
          (let image_files = sort found
           in if image_files = [] then (Inr (), print (Aucune_image repertoire_racine) w0)
              else (case boucle E repertoire_racine image_files
                           (print (Demarrage (length image_files)) w0) of
                      (Inl e, w') \<Rightarrow> (Inl e, w')
                    | (Inr u, w') \<Rightarrow> (Inr (), print Traitement_termine w'))))"


definition chemin_sortie :: "path \<Rightarrow> path \<Rightarrow> path" where
  "chemin_sortie repertoire_racine image_path =
     join (repertoire_sortie repertoire_racine) (nom_sortie (basename image_path))"

subsection \<open>Reading a trace\<close>

text \<open>The image writes of a trace, in order: the path and the image of each.\<close>

definition ecriture :: "event \<Rightarrow> (path \<times> mat) list" where
  "ecriture ev = (case ev of Call_imwrite q img \<Rightarrow> [(q, img)] | _ \<Rightarrow> [])"

definition ecritures :: "event list \<Rightarrow> (path \<times> mat) list" where
  "ecritures tr = concat (map ecriture tr)"

text \<open>The calls of the filter step: the path and the five parameters of each.\<close>

definition appel_extraire :: "event \<Rightarrow> (path \<times> int \<times> real \<times> real \<times> real \<times> real) list" where
  "appel_extraire ev =
     (case ev of Call_extraire p k s t l g \<Rightarrow> [(p, k, s, t, l, g)] | _ \<Rightarrow> [])"

definition appels_extraire :: "event list \<Rightarrow> (path \<times> int \<times> real \<times> real \<times> real \<times> real) list" where
  "appels_extraire tr = concat (map appel_extraire tr)"

text \<open>The kernels built: the arguments of each \<open>cv2.getGaborKernel\<close>.\<close>

definition appel_noyau ::
  "event \<Rightarrow> (int \<times> int \<times> real \<times> real \<times> real \<times> real \<times> real \<times> nat) list"
where
  "appel_noyau ev =
     (case ev of
        Call_getGaborKernel kw kh s t l g psi kt \<Rightarrow> [(kw, kh, s, t, l, g, psi, kt)]
      | _ \<Rightarrow> [])"

definition appels_noyau ::
  "event list \<Rightarrow> (int \<times> int \<times> real \<times> real \<times> real \<times> real \<times> real \<times> nat) list"
where
  "appels_noyau tr = concat (map appel_noyau tr)"

text \<open>The failures logged: the path of each error line.\<close>

definition echec :: "event \<Rightarrow> path list" where
  "echec ev =
     (case ev of
        Print (Erreur_chargement p) \<Rightarrow> [p]
      | Print (Erreur_traitement p e) \<Rightarrow> [p]
      | _ \<Rightarrow> [])"

definition echecs :: "event list \<Rightarrow> path list" where
  "echecs tr = concat (map echec tr)"

text \<open>The directories asked for: the argument of each \<open>os.makedirs\<close>.\<close>

definition creation :: "event \<Rightarrow> path list" where
  "creation ev = (case ev of Call_makedirs d \<Rightarrow> [d] | _ \<Rightarrow> [])"

definition creations :: "event list \<Rightarrow> path list" where
  "creations tr = concat (map creation tr)"

subsection \<open>A small environment to run the model on\<close>

text \<open>
  A toy image format: the first three bytes of a file are the rows, columns and
  channels of the image, and a file shorter than that does not decode. The toy library
  converts three channels to one, builds a kernel of the size asked for, refuses to
  filter an empty image, and encodes an image as its two dimensions. Its \<open>glob\<close> knows
  the names of one directory, \<open>/data\<close>, and returns those that exist, unsorted.
\<close>

definition catalogue :: "path list" where
  "catalogue =
     [''/data/frag_eroded_0007.ppm'', ''/data/frag_eroded_0002.ppm'',
      ''/data/frag_eroded_a.ppm_b.ppm'']"

definition env_exemple :: env where
  "env_exemple =
     \<lparr>glob_fn = (\<lambda>fs ds pat.
         if pat = ''/data/frag_eroded_*.ppm'' then filter (\<lambda>p. fs p \<noteq> None) catalogue else []),
      imdecode = (\<lambda>b. case b of
         r # c # ch # _ \<Rightarrow>
           Inr (Some \<lparr>rows = r, cols = c, channels = ch, depth = CV_8U, samples = []\<rparr>)
       | _ \<Rightarrow> Inr None),
      cvtColor_fn = (\<lambda>m code.
         if channels m = 3 \<and> code = COLOR_BGR2GRAY then Inr (m\<lparr>channels := 1\<rparr>)
         else Inl (Cv2Error ''cvtColor'')),
      getGaborKernel_fn = (\<lambda>ks sigma theta lambd gamma psi kt.
         if fst ks \<le> 0 \<or> snd ks \<le> 0 then Inl (Cv2Error ''getGaborKernel'')
         else Inr \<lparr>rows = nat (snd ks), cols = nat (fst ks), channels = 1, depth = kt,
                  samples = []\<rparr>),
      filter2D_fn = (\<lambda>src dd k.
         if rows src = 0 \<or> cols src = 0 then Inl (Cv2Error ''filter2D'')
         else Inr (src\<lparr>depth := CV_MAT_DEPTH dd\<rparr>)),
      imencode = (\<lambda>name m. Inr [rows m, cols m])\<rparr>"

text \<open>
  A directory with two images, \<open>0007\<close> of 4 by 6 pixels and \<open>0002\<close> of 2 by 3, and
  the same directory with \<open>0002\<close> cut short.
\<close>

definition monde_exemple :: world where
  "monde_exemple =
     \<lparr>files = [''/data/frag_eroded_0007.ppm'' \<mapsto> [4, 6, 3, 9, 9],
               ''/data/frag_eroded_0002.ppm'' \<mapsto> [2, 3, 3, 1]],
      dirs = {''/data''},
      trace = []\<rparr>"

definition monde_corrompu :: world where
  "monde_corrompu =
     \<lparr>files = [''/data/frag_eroded_0007.ppm'' \<mapsto> [4, 6, 3, 9, 9],
               ''/data/frag_eroded_0002.ppm'' \<mapsto> [2]],
      dirs = {''/data''},
      trace = []\<rparr>"

text \<open>
  An empty directory; an image of one channel and an image without rows, as the toy
  format allows them; and a library whose decoder raises.
\<close>

definition monde_vide :: world where
  "monde_vide = \<lparr>files = Map.empty, dirs = {''/data''}, trace = []\<rparr>"

definition monde_un_canal :: world where
  "monde_un_canal =
     \<lparr>files = [''/data/frag_eroded_0007.ppm'' \<mapsto> [4, 6, 1]], dirs = {''/data''}, trace = []\<rparr>"

definition monde_image_vide :: world where
  "monde_image_vide =
     \<lparr>files = [''/data/frag_eroded_0007.ppm'' \<mapsto> [0, 6, 3]], dirs = {''/data''}, trace = []\<rparr>"

definition env_decodeur_leve :: env where
  "env_decodeur_leve = env_exemple\<lparr>imdecode := (\<lambda>b. Inl (Cv2Error ''imread''))\<rparr>"

text \<open>
  A directory whose only image has \<open>.ppm\<close> twice in its name, and a directory whose two
  images are both cut short.
\<close>

definition monde_double_ppm :: world where
  "monde_double_ppm =
     \<lparr>files = [''/data/frag_eroded_a.ppm_b.ppm'' \<mapsto> [4, 6, 3]], dirs = {''/data''}, trace = []\<rparr>"

definition monde_tout_corrompu :: world where
  "monde_tout_corrompu =
     \<lparr>files = [''/data/frag_eroded_0007.ppm'' \<mapsto> [],
               ''/data/frag_eroded_0002.ppm'' \<mapsto> [2]],
      dirs = {''/data''},
      trace = []\<rparr>"


definition monde_apres :: world where
  "monde_apres = snd (balayer_et_traiter_images env_exemple ''/data'' monde_exemple)"

subsection \<open>Names for the statements\<close>

text \<open>
  The output directory and the directories above it: what \<open>os.makedirs\<close> may create, and
  where a regular file is in its way.
\<close>

definition dossiers_sortie :: "path \<Rightarrow> path set" where
  "dossiers_sortie repertoire_racine =
     set (ancestors (repertoire_sortie repertoire_racine)) \<union> {repertoire_sortie repertoire_racine}"

text \<open>
  The list \<open>image_files\<close> of the runner (line 49), and the world in which its loop starts:
  after the call of \<open>glob\<close> and the line that announces the number of images.
\<close>

definition image_files :: "env \<Rightarrow> path \<Rightarrow> world \<Rightarrow> path list" where
  "image_files E repertoire_racine w =
     sort (glob_fn E (files w) (dirs w) (chemin_recherche repertoire_racine))"

definition monde_depart :: "env \<Rightarrow> path \<Rightarrow> world \<Rightarrow> world" where
  "monde_depart E repertoire_racine w =
     print (Demarrage (length (image_files E repertoire_racine w)))
       (emit (Call_glob (chemin_recherche repertoire_racine)) w)"

text \<open>
  What OpenCV documents of the two calls that decide the size and type of the result:
  \<open>cvtColor\<close> with \<open>COLOR_BGR2GRAY\<close> keeps the size and gives one channel; \<open>filter2D\<close>
  keeps the size and the channels of its source and gives its result the depth
  \<open>CV_MAT_DEPTH(ddepth)\<close>.
\<close>

definition conforme_opencv :: "env \<Rightarrow> bool" where
  "conforme_opencv E \<longleftrightarrow>
     (\<forall>src g. cvtColor_fn E src COLOR_BGR2GRAY = Inr g \<longrightarrow>
        rows g = rows src \<and> cols g = cols src \<and> channels g = 1)
   \<and> (\<forall>src ddepth kern out. filter2D_fn E src ddepth kern = Inr out \<longrightarrow>
        rows out = rows src \<and> cols out = cols src \<and> channels out = channels src
        \<and> depth out = CV_MAT_DEPTH ddepth)"

section \<open>Properties\<close>

subsection \<open>Events only extend the trace\<close>

lemma emit_simps [simp]:
  "files (emit ev w) = files w" "dirs (emit ev w) = dirs w" "trace (emit ev w) = trace w @ [ev]"
  by (simp_all add: emit_def)

lemma print_simps [simp]:
  "files (print m w) = files w" "dirs (print m w) = dirs w" "trace (print m w) = trace w @ [Print m]"
  by (simp_all add: print_def)

lemmas extraire_defs =
  extraire_texture_gabor_def extraire_corps_def cv2_imread_def cv2_cvtColor_def
  cv2_getGaborKernel_def cv2_filter2D_def

subsection \<open>The filter step\<close>

text \<open>
  The step reads one file and nothing else: in two worlds that hold the same bytes under
  the path it returns the same pair and adds the same events, and it leaves the files and
  the directories as they are.
\<close>

lemma extraire_deux_mondes:
  assumes "files wa p = files wb p"
  shows "\<exists>out evs.
      extraire_texture_gabor E p k s t l g wa = (Inr (basename p, out), wa\<lparr>trace := trace wa @ evs\<rparr>)
    \<and> extraire_texture_gabor E p k s t l g wb = (Inr (basename p, out), wb\<lparr>trace := trace wb @ evs\<rparr>)"
  using assms
  by (auto simp: extraire_defs emit_def print_def split: option.splits sum.splits)

lemma basename_sans_sep: "sep \<notin> set (basename p)"
  unfolding basename_def using set_takeWhileD by fastforce

lemma basename_suffixe: "\<exists>d. p = d @ basename p \<and> (d = [] \<or> last d = sep)"
proof -
  let ?r = "rev p"
  have "?r = takeWhile (\<lambda>c. c \<noteq> sep) ?r @ dropWhile (\<lambda>c. c \<noteq> sep) ?r" by simp
  then have "p = rev (dropWhile (\<lambda>c. c \<noteq> sep) ?r) @ basename p"
    unfolding basename_def by (metis rev_append rev_rev_ident)
  moreover have "dropWhile (\<lambda>c. c \<noteq> sep) ?r = [] \<or> hd (dropWhile (\<lambda>c. c \<noteq> sep) ?r) = sep"
    using hd_dropWhile[of "\<lambda>c. c \<noteq> sep" ?r] by blast
  then have "rev (dropWhile (\<lambda>c. c \<noteq> sep) ?r) = [] \<or> last (rev (dropWhile (\<lambda>c. c \<noteq> sep) ?r)) = sep"
    by (auto simp: last_rev)
  ultimately show ?thesis by blast
qed

text \<open>
  C9. Whatever the path, the parameters and the libraries, the first component of the
  pair the filter step returns is the basename of the path, on success and on every
  failure. The basename has no separator in it and is the end of the path, after its
  last separator.
\<close>

theorem extraire_rend_basename: 
  "\<exists>out w'. extraire_texture_gabor E image_path ksize sigma theta lambd gamma w
               = (Inr (basename image_path, out), w')
     \<and> sep \<notin> set (basename image_path)
     \<and> (\<exists>d. image_path = d @ basename image_path \<and> (d = [] \<or> last d = sep))"
  using extraire_deux_mondes[of w image_path w E ksize sigma theta lambd gamma]
    basename_sans_sep[of image_path] basename_suffixe[of image_path]
  by blast

text \<open>
  C1. The filter step never raises: it always returns a pair. When the file is missing or
  does not decode, it prints the loading error with the path and returns the basename
  with no image. When the decoder, the grayscale conversion, the construction of the
  kernel or the convolution raises, the exception is caught, the processing error is
  printed with the path and the exception, and the pair returned is again the basename
  with no image.
\<close>

theorem extraire_ne_leve_jamais:
  "(\<exists>r w'. extraire_texture_gabor E p k s t l g w = (Inr r, w'))
   \<and> (files w p = None \<or> (\<exists>b. files w p = Some b \<and> imdecode E b = Inr None) \<longrightarrow>
        extraire_texture_gabor E p k s t l g w =
          (Inr (basename p, None),
           w\<lparr>trace := trace w @ [Call_extraire p k s t l g, Call_imread p,
                                  Print (Erreur_chargement p)]\<rparr>))
   \<and> (\<forall>b e. files w p = Some b \<and> imdecode E b = Inl e \<longrightarrow>
        (\<exists>w'. extraire_texture_gabor E p k s t l g w = (Inr (basename p, None), w')
            \<and> last (trace w') = Print (Erreur_traitement p e)))
   \<and> (\<forall>b img e. files w p = Some b \<and> imdecode E b = Inr (Some img)
          \<and> cvtColor_fn E img COLOR_BGR2GRAY = Inl e \<longrightarrow>
        (\<exists>w'. extraire_texture_gabor E p k s t l g w = (Inr (basename p, None), w')
            \<and> last (trace w') = Print (Erreur_traitement p e)))
   \<and> (\<forall>b img gray e. files w p = Some b \<and> imdecode E b = Inr (Some img)
          \<and> cvtColor_fn E img COLOR_BGR2GRAY = Inr gray
          \<and> getGaborKernel_fn E (k, k) s t l g 0 CV_32F = Inl e \<longrightarrow>
        (\<exists>w'. extraire_texture_gabor E p k s t l g w = (Inr (basename p, None), w')
            \<and> last (trace w') = Print (Erreur_traitement p e)))
   \<and> (\<forall>b img gray kern e. files w p = Some b \<and> imdecode E b = Inr (Some img)
          \<and> cvtColor_fn E img COLOR_BGR2GRAY = Inr gray
          \<and> getGaborKernel_fn E (k, k) s t l g 0 CV_32F = Inr kern
          \<and> filter2D_fn E gray CV_8UC3 kern = Inl e \<longrightarrow>
        (\<exists>w'. extraire_texture_gabor E p k s t l g w = (Inr (basename p, None), w')
            \<and> last (trace w') = Print (Erreur_traitement p e)))"
proof (intro conjI allI impI)
  show "\<exists>r w'. extraire_texture_gabor E p k s t l g w = (Inr r, w')"
    using extraire_deux_mondes[of w p w E k s t l g] by blast
qed (auto simp: extraire_defs emit_def print_def)

theorem extraire_ne_leve_jamais_witness:
  "(files monde_corrompu ''/data/frag_eroded_0002.ppm'' = Some [2]
      \<and> imdecode env_exemple [2] = Inr None
      \<and> extraire_texture_gabor env_exemple ''/data/frag_eroded_0002.ppm'' 31 5 (np_pi / 4) 10 (1 / 2)
            monde_corrompu =
          (Inr (''frag_eroded_0002.ppm'', None),
           monde_corrompu\<lparr>trace :=
             [Call_extraire ''/data/frag_eroded_0002.ppm'' 31 5 (np_pi / 4) 10 (1 / 2),
              Call_imread ''/data/frag_eroded_0002.ppm'',
              Print (Erreur_chargement ''/data/frag_eroded_0002.ppm'')]\<rparr>))
   \<and> (imdecode env_decodeur_leve [4, 6, 3, 9, 9] = Inl (Cv2Error ''imread'')
      \<and> (\<exists>w'. extraire_texture_gabor env_decodeur_leve ''/data/frag_eroded_0007.ppm'' 31 5 (np_pi / 4)
                  10 (1 / 2) monde_exemple = (Inr (''frag_eroded_0007.ppm'', None), w')
              \<and> last (trace w') =
                  Print (Erreur_traitement ''/data/frag_eroded_0007.ppm'' (Cv2Error ''imread''))))
   \<and> (cvtColor_fn env_exemple
          \<lparr>rows = 4, cols = 6, channels = 1, depth = CV_8U, samples = []\<rparr> COLOR_BGR2GRAY
        = Inl (Cv2Error ''cvtColor'')
      \<and> (\<exists>w'. extraire_texture_gabor env_exemple ''/data/frag_eroded_0007.ppm'' 31 5 (np_pi / 4)
                  10 (1 / 2) monde_un_canal = (Inr (''frag_eroded_0007.ppm'', None), w')
              \<and> last (trace w') =
                  Print (Erreur_traitement ''/data/frag_eroded_0007.ppm'' (Cv2Error ''cvtColor''))))
   \<and> (getGaborKernel_fn env_exemple (0, 0) 5 (np_pi / 4) 10 (1 / 2) 0 CV_32F
        = Inl (Cv2Error ''getGaborKernel'')
      \<and> (\<exists>w'. extraire_texture_gabor env_exemple ''/data/frag_eroded_0007.ppm'' 0 5 (np_pi / 4)
                  10 (1 / 2) monde_exemple = (Inr (''frag_eroded_0007.ppm'', None), w')
              \<and> last (trace w') =
                  Print (Erreur_traitement ''/data/frag_eroded_0007.ppm''
                           (Cv2Error ''getGaborKernel''))))
   \<and> (filter2D_fn env_exemple
          \<lparr>rows = 0, cols = 6, channels = 1, depth = CV_8U, samples = []\<rparr> CV_8UC3
          \<lparr>rows = 31, cols = 31, channels = 1, depth = CV_32F, samples = []\<rparr>
        = Inl (Cv2Error ''filter2D'')
      \<and> (\<exists>w'. extraire_texture_gabor env_exemple ''/data/frag_eroded_0007.ppm'' 31 5 (np_pi / 4)
                  10 (1 / 2) monde_image_vide = (Inr (''frag_eroded_0007.ppm'', None), w')
              \<and> last (trace w') =
                  Print (Erreur_traitement ''/data/frag_eroded_0007.ppm'' (Cv2Error ''filter2D''))))"
proof -
  let ?p2 = "''/data/frag_eroded_0002.ppm''" and ?p7 = "''/data/frag_eroded_0007.ppm''"
  have b2: "basename ?p2 = ''frag_eroded_0002.ppm''" and b7: "basename ?p7 = ''frag_eroded_0007.ppm''"
    by (simp_all add: basename_def sep_def)
  have a1: "files monde_corrompu ?p2 = Some [2]" "imdecode env_exemple [2] = Inr None"
    by (simp_all add: monde_corrompu_def env_exemple_def)
  have a2: "files monde_exemple ?p7 = Some [4, 6, 3, 9, 9]"
    "imdecode env_decodeur_leve [4, 6, 3, 9, 9] = Inl (Cv2Error ''imread'')"
    by (simp_all add: monde_exemple_def env_decodeur_leve_def)
  have a3: "files monde_un_canal ?p7 = Some [4, 6, 1]"
    "imdecode env_exemple [4, 6, 1]
       = Inr (Some \<lparr>rows = 4, cols = 6, channels = 1, depth = CV_8U, samples = []\<rparr>)"
    "cvtColor_fn env_exemple
       \<lparr>rows = 4, cols = 6, channels = 1, depth = CV_8U, samples = []\<rparr> COLOR_BGR2GRAY
     = Inl (Cv2Error ''cvtColor'')"
    by (simp_all add: monde_un_canal_def env_exemple_def)
  have a4: "imdecode env_exemple [4, 6, 3, 9, 9]
       = Inr (Some \<lparr>rows = 4, cols = 6, channels = 3, depth = CV_8U, samples = []\<rparr>)"
    "cvtColor_fn env_exemple
       \<lparr>rows = 4, cols = 6, channels = 3, depth = CV_8U, samples = []\<rparr> COLOR_BGR2GRAY
     = Inr \<lparr>rows = 4, cols = 6, channels = 1, depth = CV_8U, samples = []\<rparr>"
    "getGaborKernel_fn env_exemple (0, 0) 5 (np_pi / 4) 10 (1 / 2) 0 CV_32F
     = Inl (Cv2Error ''getGaborKernel'')"
    by (simp_all add: env_exemple_def)
  have a5: "files monde_image_vide ?p7 = Some [0, 6, 3]"
    "imdecode env_exemple [0, 6, 3]
       = Inr (Some \<lparr>rows = 0, cols = 6, channels = 3, depth = CV_8U, samples = []\<rparr>)"
    "cvtColor_fn env_exemple
       \<lparr>rows = 0, cols = 6, channels = 3, depth = CV_8U, samples = []\<rparr> COLOR_BGR2GRAY
     = Inr \<lparr>rows = 0, cols = 6, channels = 1, depth = CV_8U, samples = []\<rparr>"
    "getGaborKernel_fn env_exemple (31, 31) 5 (np_pi / 4) 10 (1 / 2) 0 CV_32F
     = Inr \<lparr>rows = 31, cols = 31, channels = 1, depth = CV_32F, samples = []\<rparr>"
    "filter2D_fn env_exemple
       \<lparr>rows = 0, cols = 6, channels = 1, depth = CV_8U, samples = []\<rparr> CV_8UC3
       \<lparr>rows = 31, cols = 31, channels = 1, depth = CV_32F, samples = []\<rparr>
     = Inl (Cv2Error ''filter2D'')"
    by (simp_all add: monde_image_vide_def env_exemple_def)
  note c1 = extraire_ne_leve_jamais[of env_exemple ?p2 31 5 "np_pi / 4" 10 "1 / 2" monde_corrompu, unfolded b2]
  note c2 = extraire_ne_leve_jamais[of env_decodeur_leve ?p7 31 5 "np_pi / 4" 10 "1 / 2" monde_exemple, unfolded b7]
  note c3 = extraire_ne_leve_jamais[of env_exemple ?p7 31 5 "np_pi / 4" 10 "1 / 2" monde_un_canal, unfolded b7]
  note c4 = extraire_ne_leve_jamais[of env_exemple ?p7 0 5 "np_pi / 4" 10 "1 / 2" monde_exemple, unfolded b7]
  note c5 = extraire_ne_leve_jamais[of env_exemple ?p7 31 5 "np_pi / 4" 10 "1 / 2" monde_image_vide, unfolded b7]
  have r1: "extraire_texture_gabor env_exemple ?p2 31 5 (np_pi / 4) 10 (1 / 2) monde_corrompu =
          (Inr (''frag_eroded_0002.ppm'', None),
           monde_corrompu\<lparr>trace :=
             [Call_extraire ?p2 31 5 (np_pi / 4) 10 (1 / 2), Call_imread ?p2,
              Print (Erreur_chargement ?p2)]\<rparr>)"
    using c1 a1 by (simp add: monde_corrompu_def)
  have r2: "\<exists>w'. extraire_texture_gabor env_decodeur_leve ?p7 31 5 (np_pi / 4) 10 (1 / 2) monde_exemple
                 = (Inr (''frag_eroded_0007.ppm'', None), w')
              \<and> last (trace w') = Print (Erreur_traitement ?p7 (Cv2Error ''imread''))"
    using c2 a2 by blast
  have r3: "\<exists>w'. extraire_texture_gabor env_exemple ?p7 31 5 (np_pi / 4) 10 (1 / 2) monde_un_canal
                 = (Inr (''frag_eroded_0007.ppm'', None), w')
              \<and> last (trace w') = Print (Erreur_traitement ?p7 (Cv2Error ''cvtColor''))"
    using c3 a3 by blast
  have r4: "\<exists>w'. extraire_texture_gabor env_exemple ?p7 0 5 (np_pi / 4) 10 (1 / 2) monde_exemple
                 = (Inr (''frag_eroded_0007.ppm'', None), w')
              \<and> last (trace w') = Print (Erreur_traitement ?p7 (Cv2Error ''getGaborKernel''))"
    using c4 a2(1) a4 by blast
  have r5: "\<exists>w'. extraire_texture_gabor env_exemple ?p7 31 5 (np_pi / 4) 10 (1 / 2) monde_image_vide
                 = (Inr (''frag_eroded_0007.ppm'', None), w')
              \<and> last (trace w') = Print (Erreur_traitement ?p7 (Cv2Error ''filter2D''))"
    using c5 a5 by blast
  show ?thesis using a1 a2(2) a3(3) a4(3) a5(5) r1 r2 r3 r4 r5 by blast
qed

subsection \<open>The batch runner\<close>

text \<open>
  C6. When \<open>glob\<close> finds no file for the pattern, the runner prints that no image was
  found and returns normally: the trace gains the call of \<open>glob\<close> and that one line, and
  the files and the directories are unchanged, so no output directory is created.
\<close>

theorem aucune_image_sortie_immediate:
  assumes "glob_fn E (files w) (dirs w) (chemin_recherche repertoire_racine) = []"
  shows "balayer_et_traiter_images E repertoire_racine w =
           (Inr (),
            w\<lparr>trace := trace w @ [Call_glob (join repertoire_racine ''frag_eroded_*.ppm''),
                                   Print (Aucune_image repertoire_racine)]\<rparr>)"
  using assms
  by (simp add: balayer_et_traiter_images_def glob_glob_def chemin_recherche_def emit_def print_def)

theorem aucune_image_sortie_immediate_witness:
  "glob_fn env_exemple (files monde_vide) (dirs monde_vide) (chemin_recherche ''/data'') = []
   \<and> balayer_et_traiter_images env_exemple ''/data'' monde_vide =
       (Inr (), \<lparr>files = Map.empty, dirs = {''/data''},
                 trace = [Call_glob ''/data/frag_eroded_*.ppm'', Print (Aucune_image ''/data'')]\<rparr>)"
proof -
  have h: "glob_fn env_exemple (files monde_vide) (dirs monde_vide) (chemin_recherche ''/data'') = []"
    by (simp add: env_exemple_def monde_vide_def chemin_recherche_def join_def sep_def catalogue_def)
  show ?thesis using h aucune_image_sortie_immediate[OF h] by (simp add: monde_vide_def join_def sep_def)
qed

subsection \<open>The loop, event by event and in two worlds\<close>

lemma projections_simps [simp]:
  "ecritures [] = []" "ecritures (tr @ tr') = ecritures tr @ ecritures tr'"
  "appels_extraire [] = []" "appels_extraire (tr @ tr') = appels_extraire tr @ appels_extraire tr'"
  "appels_noyau [] = []" "appels_noyau (tr @ tr') = appels_noyau tr @ appels_noyau tr'"
  "echecs [] = []" "echecs (tr @ tr') = echecs tr @ echecs tr'"
  "creations [] = []" "creations (tr @ tr') = creations tr @ creations tr'"
  by (simp_all add: ecritures_def appels_extraire_def appels_noyau_def echecs_def creations_def)

lemma projections_Cons [simp]:
  "ecritures (ev # tr) = ecriture ev @ ecritures tr"
  "appels_extraire (ev # tr) = appel_extraire ev @ appels_extraire tr"
  "appels_noyau (ev # tr) = appel_noyau ev @ appels_noyau tr"
  "echecs (ev # tr) = echec ev @ echecs tr"
  "creations (ev # tr) = creation ev @ creations tr"
  by (simp_all add: ecritures_def appels_extraire_def appels_noyau_def echecs_def creations_def)

lemmas projection_defs = ecriture_def appel_extraire_def appel_noyau_def echec_def creation_def

lemma extraire_kw_deux_mondes:
  assumes "files wa p = files wb p"
  shows "\<exists>out evs.
      fst (extraire_texture_gabor_kw E p gabor_params wa) = Inr (basename p, out)
    \<and> fst (extraire_texture_gabor_kw E p gabor_params wb) = Inr (basename p, out)
    \<and> trace (snd (extraire_texture_gabor_kw E p gabor_params wa)) = trace wa @ evs
    \<and> trace (snd (extraire_texture_gabor_kw E p gabor_params wb)) = trace wb @ evs
    \<and> appels_extraire evs = [(p, 31, 5, np_pi / 4, 10, 1 / 2)]
    \<and> set (appels_noyau evs) \<subseteq> {(31, 31, 5, np_pi / 4, 10, 1 / 2, 0, CV_32F)}
    \<and> ecritures evs = [] \<and> creations evs = []
    \<and> (out = None \<longrightarrow> echecs evs = [p]) \<and> (out \<noteq> None \<longrightarrow> echecs evs = [])"
  using assms
  by (auto simp: extraire_texture_gabor_kw_def gabor_params_def extraire_defs
        projection_defs split: option.splits sum.splits)

lemma extraire_kw_cadre:
  "files (snd (extraire_texture_gabor_kw E p gabor_params w)) = files w"
  "dirs (snd (extraire_texture_gabor_kw E p gabor_params w)) = dirs w"
  by (auto simp: extraire_texture_gabor_kw_def gabor_params_def extraire_defs
        split: option.splits sum.splits)


lemma extraire_kw_forme:
  assumes "files wa p = files wb p"
  obtains out evs wa1 wb1 where
    "extraire_texture_gabor_kw E p gabor_params wa = (Inr (basename p, out), wa1)"
    "extraire_texture_gabor_kw E p gabor_params wb = (Inr (basename p, out), wb1)"
    "files wa1 = files wa" "dirs wa1 = dirs wa" "trace wa1 = trace wa @ evs"
    "files wb1 = files wb" "dirs wb1 = dirs wb" "trace wb1 = trace wb @ evs"
    "appels_extraire evs = [(p, 31, 5, np_pi / 4, 10, 1 / 2)]"
    "set (appels_noyau evs) \<subseteq> {(31, 31, 5, np_pi / 4, 10, 1 / 2, 0, CV_32F)}"
    "ecritures evs = []" "creations evs = []"
    "out = None \<longrightarrow> echecs evs = [p]" "out \<noteq> None \<longrightarrow> echecs evs = []"
proof -
  from extraire_kw_deux_mondes[OF assms, of E] obtain out evs where h:
    "fst (extraire_texture_gabor_kw E p gabor_params wa) = Inr (basename p, out)"
    "fst (extraire_texture_gabor_kw E p gabor_params wb) = Inr (basename p, out)"
    "trace (snd (extraire_texture_gabor_kw E p gabor_params wa)) = trace wa @ evs"
    "trace (snd (extraire_texture_gabor_kw E p gabor_params wb)) = trace wb @ evs"
    "appels_extraire evs = [(p, 31, 5, np_pi / 4, 10, 1 / 2)]"
    "set (appels_noyau evs) \<subseteq> {(31, 31, 5, np_pi / 4, 10, 1 / 2, 0, CV_32F)}"
    "ecritures evs = []" "creations evs = []"
    "out = None \<longrightarrow> echecs evs = [p]" "out \<noteq> None \<longrightarrow> echecs evs = []"
    by blast
  show thesis
    by (rule that[of out "snd (extraire_texture_gabor_kw E p gabor_params wa)"
                    "snd (extraire_texture_gabor_kw E p gabor_params wb)" evs])
       (use h in \<open>simp_all add: extraire_kw_cadre prod_eq_iff\<close>)
qed

lemma corps_deux_mondes:
  assumes f: "files wa p = files wb p"
    and b: "\<forall>q\<in>dossiers_sortie racine. (files wa q = None) = (files wb q = None)"
    and d: "dirs wa \<union> dossiers_sortie racine = dirs wb \<union> dossiers_sortie racine"
  shows "\<exists>evs.
      fst (corps_boucle E racine p wa) = fst (corps_boucle E racine p wb)
    \<and> trace (snd (corps_boucle E racine p wa)) = trace wa @ evs
    \<and> trace (snd (corps_boucle E racine p wb)) = trace wb @ evs
    \<and> ((files (snd (corps_boucle E racine p wa)) = files wa
          \<and> files (snd (corps_boucle E racine p wb)) = files wb)
        \<or> (\<exists>data. files (snd (corps_boucle E racine p wa)) = (files wa)(chemin_sortie racine p \<mapsto> data)
                 \<and> files (snd (corps_boucle E racine p wb)) = (files wb)(chemin_sortie racine p \<mapsto> data)))
    \<and> ((dirs (snd (corps_boucle E racine p wa)) = dirs wa
          \<and> dirs (snd (corps_boucle E racine p wb)) = dirs wb)
        \<or> (dirs (snd (corps_boucle E racine p wa)) = dirs wa \<union> dossiers_sortie racine
          \<and> dirs (snd (corps_boucle E racine p wb)) = dirs wb \<union> dossiers_sortie racine))"
proof -
  let ?rs = "repertoire_sortie racine"
  from f obtain out evs wa1 wb1 where h:
    "extraire_texture_gabor_kw E p gabor_params wa = (Inr (basename p, out), wa1)"
    "extraire_texture_gabor_kw E p gabor_params wb = (Inr (basename p, out), wb1)"
    "files wa1 = files wa" "dirs wa1 = dirs wa" "trace wa1 = trace wa @ evs"
    "files wb1 = files wb" "dirs wb1 = dirs wb" "trace wb1 = trace wb @ evs"
    by (rule extraire_kw_forme[of wa p wb E])
  have b1: "(\<exists>q\<in>set (ancestors ?rs). \<exists>y. files wa q = Some y)
            = (\<exists>q\<in>set (ancestors ?rs). \<exists>y. files wb q = Some y)"
    using b unfolding dossiers_sortie_def by (metis UnI1 not_None_eq)
  have b2: "(files wa ?rs = None) = (files wb ?rs = None)"
    using b unfolding dossiers_sortie_def by simp
  have d': "dirs wa \<union> set (ancestors ?rs) \<union> {?rs} = dirs wb \<union> set (ancestors ?rs) \<union> {?rs}"
    using d unfolding dossiers_sortie_def by (simp add: Un_assoc)
  show ?thesis
  proof (cases out)
    case None
    then show ?thesis using h by (simp add: corps_boucle_def)
  next
    case (Some img)
    show ?thesis
      using h b1 b2 d' Some
      by (auto simp: corps_boucle_def os_makedirs_def cv2_imwrite_def Let_def chemin_sortie_def
            dossiers_sortie_def Un_assoc split: sum.splits)
  qed
qed


lemma boucle_deux_mondes:
  assumes "\<forall>p\<in>set ps. files wa p = files wb p"
    and "\<forall>q\<in>dossiers_sortie racine. (files wa q = None) = (files wb q = None)"
    and "dirs wa \<union> dossiers_sortie racine = dirs wb \<union> dossiers_sortie racine"
  shows "\<exists>evs.
      fst (boucle E racine ps wa) = fst (boucle E racine ps wb)
    \<and> trace (snd (boucle E racine ps wa)) = trace wa @ evs
    \<and> trace (snd (boucle E racine ps wb)) = trace wb @ evs
    \<and> (\<forall>x. files (snd (boucle E racine ps wa)) x = files (snd (boucle E racine ps wb)) x
           \<or> (files (snd (boucle E racine ps wa)) x = files wa x
              \<and> files (snd (boucle E racine ps wb)) x = files wb x))
    \<and> ((dirs (snd (boucle E racine ps wa)) = dirs wa
          \<and> dirs (snd (boucle E racine ps wb)) = dirs wb)
        \<or> (dirs (snd (boucle E racine ps wa)) = dirs wa \<union> dossiers_sortie racine
          \<and> dirs (snd (boucle E racine ps wb)) = dirs wb \<union> dossiers_sortie racine))"
  using assms
proof (induction ps arbitrary: wa wb)
  case Nil
  then show ?case by simp
next
  case (Cons p ps)
  let ?ca = "corps_boucle E racine p wa" and ?cb = "corps_boucle E racine p wb"
  let ?D = "dossiers_sortie racine"
  from Cons.prems have f: "files wa p = files wb p" by simp
  from corps_deux_mondes[OF f Cons.prems(2) Cons.prems(3), of E] obtain evs1 where c:
    "fst ?ca = fst ?cb"
    "trace (snd ?ca) = trace wa @ evs1" "trace (snd ?cb) = trace wb @ evs1"
    "(files (snd ?ca) = files wa \<and> files (snd ?cb) = files wb)
      \<or> (\<exists>data. files (snd ?ca) = (files wa)(chemin_sortie racine p \<mapsto> data)
               \<and> files (snd ?cb) = (files wb)(chemin_sortie racine p \<mapsto> data))"
    "(dirs (snd ?ca) = dirs wa \<and> dirs (snd ?cb) = dirs wb)
      \<or> (dirs (snd ?ca) = dirs wa \<union> ?D \<and> dirs (snd ?cb) = dirs wb \<union> ?D)"
    by blast
  show ?case
  proof (cases "fst ?ca")
    case (Inl e)
    then have "boucle E racine (p # ps) wa = (Inl e, snd ?ca)"
      "boucle E racine (p # ps) wb = (Inl e, snd ?cb)"
      using c(1) by (simp_all add: prod_eq_iff split: prod.splits sum.splits)
    then show ?thesis using c by auto
  next
    case (Inr u)
    then have e: "boucle E racine (p # ps) wa = boucle E racine ps (snd ?ca)"
      "boucle E racine (p # ps) wb = boucle E racine ps (snd ?cb)"
      using c(1) by (simp_all add: prod_eq_iff split: prod.splits sum.splits)
    have h1: "\<forall>q\<in>set ps. files (snd ?ca) q = files (snd ?cb) q"
      using c(4) Cons.prems(1) by auto
    have h2: "\<forall>q\<in>?D. (files (snd ?ca) q = None) = (files (snd ?cb) q = None)"
      using c(4) Cons.prems(2) by auto
    have h3: "dirs (snd ?ca) \<union> ?D = dirs (snd ?cb) \<union> ?D"
      using c(5) Cons.prems(3) by auto
    from Cons.IH[OF h1 h2 h3] obtain evs2 where i:
      "fst (boucle E racine ps (snd ?ca)) = fst (boucle E racine ps (snd ?cb))"
      "trace (snd (boucle E racine ps (snd ?ca))) = trace (snd ?ca) @ evs2"
      "trace (snd (boucle E racine ps (snd ?cb))) = trace (snd ?cb) @ evs2"
      "\<forall>x. files (snd (boucle E racine ps (snd ?ca))) x = files (snd (boucle E racine ps (snd ?cb))) x
           \<or> (files (snd (boucle E racine ps (snd ?ca))) x = files (snd ?ca) x
              \<and> files (snd (boucle E racine ps (snd ?cb))) x = files (snd ?cb) x)"
      "(dirs (snd (boucle E racine ps (snd ?ca))) = dirs (snd ?ca)
          \<and> dirs (snd (boucle E racine ps (snd ?cb))) = dirs (snd ?cb))
        \<or> (dirs (snd (boucle E racine ps (snd ?ca))) = dirs (snd ?ca) \<union> ?D
          \<and> dirs (snd (boucle E racine ps (snd ?cb))) = dirs (snd ?cb) \<union> ?D)"
      by blast
    have t: "trace (snd (boucle E racine (p # ps) wa)) = trace wa @ (evs1 @ evs2)"
      "trace (snd (boucle E racine (p # ps) wb)) = trace wb @ (evs1 @ evs2)"
      using e i(2,3) c(2,3) by simp_all
    have fl: "\<forall>x. files (snd (boucle E racine (p # ps) wa)) x
                 = files (snd (boucle E racine (p # ps) wb)) x
           \<or> (files (snd (boucle E racine (p # ps) wa)) x = files wa x
              \<and> files (snd (boucle E racine (p # ps) wb)) x = files wb x)"
    proof
      fix x
      from i(4) have "files (snd (boucle E racine ps (snd ?ca))) x
            = files (snd (boucle E racine ps (snd ?cb))) x
           \<or> (files (snd (boucle E racine ps (snd ?ca))) x = files (snd ?ca) x
              \<and> files (snd (boucle E racine ps (snd ?cb))) x = files (snd ?cb) x)" by blast
      then show "files (snd (boucle E racine (p # ps) wa)) x
                 = files (snd (boucle E racine (p # ps) wb)) x
           \<or> (files (snd (boucle E racine (p # ps) wa)) x = files wa x
              \<and> files (snd (boucle E racine (p # ps) wb)) x = files wb x)"
        unfolding e using c(4) by (cases "x = chemin_sortie racine p") auto
    qed
    have dl: "(dirs (snd (boucle E racine (p # ps) wa)) = dirs wa
          \<and> dirs (snd (boucle E racine (p # ps) wb)) = dirs wb)
        \<or> (dirs (snd (boucle E racine (p # ps) wa)) = dirs wa \<union> ?D
          \<and> dirs (snd (boucle E racine (p # ps) wb)) = dirs wb \<union> ?D)"
      unfolding e using i(5) c(5) by auto
    have "fst (boucle E racine (p # ps) wa) = fst (boucle E racine (p # ps) wb)"
      unfolding e using i(1) .
    with t fl dl show ?thesis by blast
  qed
qed


lemma corps_echec:
  assumes "fst (extraire_texture_gabor_kw E p gabor_params w) = Inr (n, None)"
  shows "fst (corps_boucle E racine p w) = Inr ()"
    and "files (snd (corps_boucle E racine p w)) = files w"
    and "dirs (snd (corps_boucle E racine p w)) = dirs w"
    and "ecritures (trace (snd (corps_boucle E racine p w))) = ecritures (trace w)"
    and "creations (trace (snd (corps_boucle E racine p w))) = creations (trace w)"
    and "echecs (trace (snd (corps_boucle E racine p w))) = echecs (trace w) @ [p]"
proof -
  obtain out evs wa1 wb1 where h:
    "extraire_texture_gabor_kw E p gabor_params w = (Inr (basename p, out), wa1)"
    "files wa1 = files w" "dirs wa1 = dirs w" "trace wa1 = trace w @ evs"
    "ecritures evs = []" "creations evs = []"
    "out = None \<longrightarrow> echecs evs = [p]"
    by (rule extraire_kw_forme[of w p w E]) auto
  from assms h(1) have "out = None" by simp
  with h show "fst (corps_boucle E racine p w) = Inr ()"
    "files (snd (corps_boucle E racine p w)) = files w"
    "dirs (snd (corps_boucle E racine p w)) = dirs w"
    "ecritures (trace (snd (corps_boucle E racine p w))) = ecritures (trace w)"
    "creations (trace (snd (corps_boucle E racine p w))) = creations (trace w)"
    "echecs (trace (snd (corps_boucle E racine p w))) = echecs (trace w) @ [p]"
    by (simp_all add: corps_boucle_def)
qed

lemma corps_evenements:
  "\<exists>evs. trace (snd (corps_boucle E racine p w)) = trace w @ evs
     \<and> appels_extraire evs = [(p, 31, 5, np_pi / 4, 10, 1 / 2)]
     \<and> set (appels_noyau evs) \<subseteq> {(31, 31, 5, np_pi / 4, 10, 1 / 2, 0, CV_32F)}
     \<and> set (map fst (ecritures evs)) \<subseteq> {chemin_sortie racine p}
     \<and> set (creations evs) \<subseteq> {repertoire_sortie racine}
     \<and> set (echecs evs) \<subseteq> {p}
     \<and> length (ecritures evs) + length (echecs evs) \<le> 1
     \<and> (fst (corps_boucle E racine p w) = Inr () \<longrightarrow>
          length (ecritures evs) + length (echecs evs) = 1)"
proof -
  obtain out evs wa1 wb1 where h:
    "extraire_texture_gabor_kw E p gabor_params w = (Inr (basename p, out), wa1)"
    "files wa1 = files w" "dirs wa1 = dirs w" "trace wa1 = trace w @ evs"
    "appels_extraire evs = [(p, 31, 5, np_pi / 4, 10, 1 / 2)]"
    "set (appels_noyau evs) \<subseteq> {(31, 31, 5, np_pi / 4, 10, 1 / 2, 0, CV_32F)}"
    "ecritures evs = []" "creations evs = []"
    "out = None \<longrightarrow> echecs evs = [p]" "out \<noteq> None \<longrightarrow> echecs evs = []"
    by (rule extraire_kw_forme[of w p w E]) auto
  show ?thesis
  proof (cases out)
    case None
    then show ?thesis using h by (simp add: corps_boucle_def)
  next
    case (Some img)
    then show ?thesis using h
      by (auto simp: corps_boucle_def os_makedirs_def cv2_imwrite_def Let_def chemin_sortie_def
            projection_defs split: sum.splits)
  qed
qed


lemma boucle_Cons_Inl:
  "fst (corps_boucle E racine p w) = Inl e \<Longrightarrow>
     boucle E racine (p # ps) w = (Inl e, snd (corps_boucle E racine p w))"
  by (simp add: prod_eq_iff split: prod.splits sum.splits)

lemma boucle_Cons_Inr:
  "fst (corps_boucle E racine p w) = Inr u \<Longrightarrow>
     boucle E racine (p # ps) w = boucle E racine ps (snd (corps_boucle E racine p w))"
  by (simp add: prod_eq_iff split: prod.splits sum.splits)

lemma boucle_evenements:
  "\<exists>evs faits. trace (snd (boucle E racine ps w)) = trace w @ evs
     \<and> prefix faits ps
     \<and> (fst (boucle E racine ps w) = Inr () \<longrightarrow> faits = ps)
     \<and> appels_extraire evs = map (\<lambda>p. (p, 31, 5, np_pi / 4, 10, 1 / 2)) faits
     \<and> set (appels_noyau evs) \<subseteq> {(31, 31, 5, np_pi / 4, 10, 1 / 2, 0, CV_32F)}
     \<and> set (map fst (ecritures evs)) \<subseteq> chemin_sortie racine ` set ps
     \<and> set (creations evs) \<subseteq> {repertoire_sortie racine}
     \<and> set (echecs evs) \<subseteq> set ps
     \<and> length (ecritures evs) + length (echecs evs) \<le> length ps
     \<and> (fst (boucle E racine ps w) = Inr () \<longrightarrow>
          length (ecritures evs) + length (echecs evs) = length ps)"
proof (induction ps arbitrary: w)
  case Nil
  show ?case by simp
next
  case (Cons p ps)
  let ?c = "corps_boucle E racine p w"
  from corps_evenements[of E racine p w] obtain evs1 where c:
    "trace (snd ?c) = trace w @ evs1"
    "appels_extraire evs1 = [(p, 31, 5, np_pi / 4, 10, 1 / 2)]"
    "set (appels_noyau evs1) \<subseteq> {(31, 31, 5, np_pi / 4, 10, 1 / 2, 0, CV_32F)}"
    "set (map fst (ecritures evs1)) \<subseteq> {chemin_sortie racine p}"
    "set (creations evs1) \<subseteq> {repertoire_sortie racine}"
    "set (echecs evs1) \<subseteq> {p}"
    "length (ecritures evs1) + length (echecs evs1) \<le> 1"
    "fst ?c = Inr () \<longrightarrow> length (ecritures evs1) + length (echecs evs1) = 1"
    by blast
  show ?case
  proof (cases "fst ?c")
    case (Inl e)
    have "trace (snd (boucle E racine (p # ps) w)) = trace w @ evs1"
      and "fst (boucle E racine (p # ps) w) \<noteq> Inr ()"
      using boucle_Cons_Inl[OF Inl] c(1) by simp_all
    moreover have "prefix [p] (p # ps)" by simp
    moreover have "appels_extraire evs1 = map (\<lambda>p. (p, 31, 5, np_pi / 4, 10, 1 / 2)) [p]"
      using c(2) by simp
    moreover have "set (map fst (ecritures evs1)) \<subseteq> chemin_sortie racine ` set (p # ps)"
      "set (echecs evs1) \<subseteq> set (p # ps)"
      "length (ecritures evs1) + length (echecs evs1) \<le> length (p # ps)"
      using c(4,6,7) by auto
    ultimately show ?thesis using c(3,5) by blast
  next
    case (Inr u)
    from Cons.IH[of "snd ?c"] obtain evs2 faits where i:
      "trace (snd (boucle E racine ps (snd ?c))) = trace (snd ?c) @ evs2"
      "prefix faits ps"
      "fst (boucle E racine ps (snd ?c)) = Inr () \<longrightarrow> faits = ps"
      "appels_extraire evs2 = map (\<lambda>p. (p, 31, 5, np_pi / 4, 10, 1 / 2)) faits"
      "set (appels_noyau evs2) \<subseteq> {(31, 31, 5, np_pi / 4, 10, 1 / 2, 0, CV_32F)}"
      "set (map fst (ecritures evs2)) \<subseteq> chemin_sortie racine ` set ps"
      "set (creations evs2) \<subseteq> {repertoire_sortie racine}"
      "set (echecs evs2) \<subseteq> set ps"
      "length (ecritures evs2) + length (echecs evs2) \<le> length ps"
      "fst (boucle E racine ps (snd ?c)) = Inr () \<longrightarrow>
          length (ecritures evs2) + length (echecs evs2) = length ps"
      by blast
    note e = boucle_Cons_Inr[OF Inr]
    have "trace (snd (boucle E racine (p # ps) w)) = trace w @ (evs1 @ evs2)"
      unfolding e using i(1) c(1) by simp
    moreover have "prefix (p # faits) (p # ps)" using i(2) by simp
    moreover have "fst (boucle E racine (p # ps) w) = Inr () \<longrightarrow> p # faits = p # ps"
      unfolding e using i(3) by simp
    moreover have "appels_extraire (evs1 @ evs2)
        = map (\<lambda>p. (p, 31, 5, np_pi / 4, 10, 1 / 2)) (p # faits)"
      using c(2) i(4) by simp
    moreover have "set (appels_noyau (evs1 @ evs2))
        \<subseteq> {(31, 31, 5, np_pi / 4, 10, 1 / 2, 0, CV_32F)}"
      using c(3) i(5) by simp
    moreover have "set (map fst (ecritures (evs1 @ evs2))) \<subseteq> chemin_sortie racine ` set (p # ps)"
      using c(4) i(6) by auto
    moreover have "set (creations (evs1 @ evs2)) \<subseteq> {repertoire_sortie racine}"
      using c(5) i(7) by simp
    moreover have "set (echecs (evs1 @ evs2)) \<subseteq> set (p # ps)"
      using c(6) i(8) by auto
    moreover have "length (ecritures (evs1 @ evs2)) + length (echecs (evs1 @ evs2))
        \<le> length (p # ps)"
      using c(7) i(9) by simp
    moreover have "fst (boucle E racine (p # ps) w) = Inr () \<longrightarrow>
        length (ecritures (evs1 @ evs2)) + length (echecs (evs1 @ evs2)) = length (p # ps)"
      unfolding e using c(8) i(10) Inr by auto
    ultimately show ?thesis by blast
  qed
qed


lemma longueur_join:
  assumes "b \<noteq> []" "hd b \<noteq> sep"
  shows "length a < length (join a b)"
  using assms by (simp add: join_def)

lemma chemin_sortie_plus_long:
  "length (repertoire_sortie racine) < length (chemin_sortie racine p)"
  unfolding chemin_sortie_def
  by (rule longueur_join) (simp_all add: nom_sortie_def sep_def)

lemma longueur_ancetre: "q \<in> set (ancestors p) \<Longrightarrow> length q < length p"
  by (simp add: ancestors_def)

lemma chemin_sortie_hors_dossiers: "chemin_sortie racine p \<notin> dossiers_sortie racine"
proof
  assume "chemin_sortie racine p \<in> dossiers_sortie racine"
  then have "length (chemin_sortie racine p) \<le> length (repertoire_sortie racine)"
    unfolding dossiers_sortie_def
    using longueur_ancetre[of "chemin_sortie racine p" "repertoire_sortie racine"] by auto
  with chemin_sortie_plus_long[of racine p] show False by simp
qed

lemma corps_cadre:
  "(files (snd (corps_boucle E racine p w)) = files w
      \<or> (\<exists>data. files (snd (corps_boucle E racine p w)) = (files w)(chemin_sortie racine p \<mapsto> data)))
   \<and> (dirs (snd (corps_boucle E racine p w)) = dirs w
      \<or> dirs (snd (corps_boucle E racine p w)) = dirs w \<union> dossiers_sortie racine)"
  using corps_deux_mondes[of w p w racine E] by auto

lemma boucle_cadre:
  "(\<forall>x. files (snd (boucle E racine ps w)) x \<noteq> files w x \<longrightarrow> x \<in> chemin_sortie racine ` set ps)
   \<and> (dirs (snd (boucle E racine ps w)) = dirs w
      \<or> dirs (snd (boucle E racine ps w)) = dirs w \<union> dossiers_sortie racine)"
proof (induction ps arbitrary: w)
  case Nil
  show ?case by simp
next
  case (Cons p ps)
  let ?c = "corps_boucle E racine p w"
  note c = corps_cadre[of E racine p w]
  show ?case
  proof (cases "fst ?c")
    case (Inl e)
    show ?thesis unfolding boucle_Cons_Inl[OF Inl] using c by auto
  next
    case (Inr u)
    show ?thesis unfolding boucle_Cons_Inr[OF Inr] using c Cons.IH[of "snd ?c"]
      by (auto split: if_splits)
  qed
qed

lemma boucle_sans_succes:
  assumes "\<forall>p\<in>set ps. fst (extraire_texture_gabor_kw E p gabor_params w0) = Inr (basename p, None)"
    and "files w = files w0"
  shows "fst (boucle E racine ps w) = Inr ()
       \<and> files (snd (boucle E racine ps w)) = files w
       \<and> dirs (snd (boucle E racine ps w)) = dirs w
       \<and> creations (trace (snd (boucle E racine ps w))) = creations (trace w)
       \<and> ecritures (trace (snd (boucle E racine ps w))) = ecritures (trace w)
       \<and> echecs (trace (snd (boucle E racine ps w))) = echecs (trace w) @ ps"
  using assms
proof (induction ps arbitrary: w)
  case Nil
  show ?case by simp
next
  case (Cons p ps)
  have "files w p = files w0 p" using Cons.prems(2) by simp
  from extraire_kw_deux_mondes[OF this, of E] Cons.prems(1)
  have n: "fst (extraire_texture_gabor_kw E p gabor_params w) = Inr (basename p, None)"
    by auto
  note c = corps_echec[OF n, of racine]
  have e: "boucle E racine (p # ps) w = boucle E racine ps (snd (corps_boucle E racine p w))"
    using boucle_Cons_Inr[OF c(1)] .
  have "files (snd (corps_boucle E racine p w)) = files w0" using c(2) Cons.prems(2) by simp
  from Cons.IH[OF _ this] Cons.prems(1) show ?case unfolding e using c by simp
qed



lemma monde_depart_simps [simp]:
  "files (monde_depart E racine w) = files w" "dirs (monde_depart E racine w) = dirs w"
  "trace (monde_depart E racine w)
     = trace w @ [Call_glob (chemin_recherche racine),
                  Print (Demarrage (length (image_files E racine w)))]"
  by (simp_all add: monde_depart_def)

lemma balayer_vide:
  assumes "image_files E racine w = []"
  shows "balayer_et_traiter_images E racine w
           = (Inr (), print (Aucune_image racine) (emit (Call_glob (chemin_recherche racine)) w))"
  using assms by (simp add: balayer_et_traiter_images_def glob_glob_def image_files_def)

lemma balayer_non_vide:
  assumes "image_files E racine w \<noteq> []"
  shows "fst (balayer_et_traiter_images E racine w)
           = fst (boucle E racine (image_files E racine w) (monde_depart E racine w))"
    and "files (snd (balayer_et_traiter_images E racine w))
           = files (snd (boucle E racine (image_files E racine w) (monde_depart E racine w)))"
    and "dirs (snd (balayer_et_traiter_images E racine w))
           = dirs (snd (boucle E racine (image_files E racine w) (monde_depart E racine w)))"
    and "trace (snd (balayer_et_traiter_images E racine w))
           = trace (snd (boucle E racine (image_files E racine w) (monde_depart E racine w)))
             @ (case fst (boucle E racine (image_files E racine w) (monde_depart E racine w)) of
                  Inl e \<Rightarrow> [] | Inr u \<Rightarrow> [Print Traitement_termine])"
  using assms
  by (auto simp: balayer_et_traiter_images_def glob_glob_def image_files_def monde_depart_def
        Let_def split: prod.splits sum.splits)

lemma balayer_evenements:
  "\<exists>evs faits. trace (snd (balayer_et_traiter_images E racine w)) = trace w @ evs
     \<and> prefix faits (image_files E racine w)
     \<and> (fst (balayer_et_traiter_images E racine w) = Inr () \<longrightarrow> faits = image_files E racine w)
     \<and> appels_extraire evs = map (\<lambda>p. (p, 31, 5, np_pi / 4, 10, 1 / 2)) faits
     \<and> set (appels_noyau evs) \<subseteq> {(31, 31, 5, np_pi / 4, 10, 1 / 2, 0, CV_32F)}
     \<and> set (map fst (ecritures evs)) \<subseteq> chemin_sortie racine ` set (image_files E racine w)
     \<and> set (creations evs) \<subseteq> {repertoire_sortie racine}
     \<and> set (echecs evs) \<subseteq> set (image_files E racine w)
     \<and> length (ecritures evs) + length (echecs evs) \<le> length (image_files E racine w)
     \<and> (fst (balayer_et_traiter_images E racine w) = Inr () \<longrightarrow>
          length (ecritures evs) + length (echecs evs) = length (image_files E racine w))"
proof (cases "image_files E racine w = []")
  case True
  show ?thesis
    unfolding balayer_vide[OF True] True
    by (rule exI[of _ "[Call_glob (chemin_recherche racine), Print (Aucune_image racine)]"],
        rule exI[of _ "[]"]) (simp add: projection_defs)
next
  case False
  let ?L = "image_files E racine w" and ?w0 = "monde_depart E racine w"
  let ?b = "boucle E racine ?L ?w0"
  note b = balayer_non_vide[OF False]
  from boucle_evenements[of E racine ?L ?w0] obtain evs faits where h:
    "trace (snd ?b) = trace ?w0 @ evs"
    "prefix faits ?L"
    "fst ?b = Inr () \<longrightarrow> faits = ?L"
    "appels_extraire evs = map (\<lambda>p. (p, 31, 5, np_pi / 4, 10, 1 / 2)) faits"
    "set (appels_noyau evs) \<subseteq> {(31, 31, 5, np_pi / 4, 10, 1 / 2, 0, CV_32F)}"
    "set (map fst (ecritures evs)) \<subseteq> chemin_sortie racine ` set ?L"
    "set (creations evs) \<subseteq> {repertoire_sortie racine}"
    "set (echecs evs) \<subseteq> set ?L"
    "length (ecritures evs) + length (echecs evs) \<le> length ?L"
    "fst ?b = Inr () \<longrightarrow> length (ecritures evs) + length (echecs evs) = length ?L"
    by blast
  define evs' where "evs' = [Call_glob (chemin_recherche racine), Print (Demarrage (length ?L))]
      @ evs @ (case fst ?b of Inl e \<Rightarrow> [] | Inr u \<Rightarrow> [Print Traitement_termine])"
  have t: "trace (snd (balayer_et_traiter_images E racine w)) = trace w @ evs'"
    using b(4) h(1) by (simp add: evs'_def)
  have p: "appels_extraire evs' = appels_extraire evs" "appels_noyau evs' = appels_noyau evs"
    "ecritures evs' = ecritures evs" "creations evs' = creations evs" "echecs evs' = echecs evs"
    by (simp_all add: evs'_def projection_defs split: sum.splits)
  have "trace (snd (balayer_et_traiter_images E racine w)) = trace w @ evs'
     \<and> prefix faits ?L
     \<and> (fst (balayer_et_traiter_images E racine w) = Inr () \<longrightarrow> faits = ?L)
     \<and> appels_extraire evs' = map (\<lambda>p. (p, 31, 5, np_pi / 4, 10, 1 / 2)) faits
     \<and> set (appels_noyau evs') \<subseteq> {(31, 31, 5, np_pi / 4, 10, 1 / 2, 0, CV_32F)}
     \<and> set (map fst (ecritures evs')) \<subseteq> chemin_sortie racine ` set ?L
     \<and> set (creations evs') \<subseteq> {repertoire_sortie racine}
     \<and> set (echecs evs') \<subseteq> set ?L
     \<and> length (ecritures evs') + length (echecs evs') \<le> length ?L
     \<and> (fst (balayer_et_traiter_images E racine w) = Inr () \<longrightarrow>
          length (ecritures evs') + length (echecs evs') = length ?L)"
    unfolding p b(1) using t h by simp
  then show ?thesis by blast
qed

subsection \<open>Size of the result, output names, order and parameters\<close>

text \<open>
  C3. With an OpenCV that behaves as documented (\<open>conforme_opencv\<close>), an image that the
  filter step returns has the rows and columns of the image that was loaded, one
  channel, and the depth \<open>CV_8U\<close>, 8 bits unsigned. The script asks \<open>filter2D\<close> for the
  depth \<open>CV_8UC3\<close>, a type code of three channels; only its depth bits count, and they
  are those of \<open>CV_8U\<close>.
\<close>

theorem filtre_conserve_dimensions:
  assumes "conforme_opencv E"
    and "files w image_path = Some b"
    and "imdecode E b = Inr (Some img)"
    and "extraire_texture_gabor E image_path ksize sigma theta lambd gamma w
           = (Inr (nom_fichier, Some filtered_image), w')"
  shows "rows filtered_image = rows img \<and> cols filtered_image = cols img
       \<and> channels filtered_image = 1 \<and> depth filtered_image = CV_8U"
proof -
  from assms(2-4) obtain gray kern where
    g: "cvtColor_fn E img COLOR_BGR2GRAY = Inr gray"
    and f: "filter2D_fn E gray CV_8UC3 kern = Inr filtered_image"
    by (auto simp: extraire_defs split: sum.splits option.splits)
  from assms(1) g have "rows gray = rows img" "cols gray = cols img" "channels gray = 1"
    unfolding conforme_opencv_def by blast+
  moreover from assms(1) f have "rows filtered_image = rows gray" "cols filtered_image = cols gray"
    "channels filtered_image = channels gray" "depth filtered_image = CV_MAT_DEPTH CV_8UC3"
    unfolding conforme_opencv_def by blast+
  moreover have "CV_MAT_DEPTH CV_8UC3 = CV_8U"
    by (simp add: CV_MAT_DEPTH_def CV_8UC3_def CV_8U_def)
  ultimately show ?thesis by simp
qed

theorem filtre_conserve_dimensions_witness:
  "conforme_opencv env_exemple
   \<and> files monde_exemple ''/data/frag_eroded_0007.ppm'' = Some [4, 6, 3, 9, 9]
   \<and> imdecode env_exemple [4, 6, 3, 9, 9]
       = Inr (Some \<lparr>rows = 4, cols = 6, channels = 3, depth = CV_8U, samples = []\<rparr>)
   \<and> (\<exists>out w'. extraire_texture_gabor env_exemple ''/data/frag_eroded_0007.ppm'' 31 5 (np_pi / 4) 10
                  (1 / 2) monde_exemple = (Inr (''frag_eroded_0007.ppm'', Some out), w')
        \<and> rows out = 4 \<and> cols out = 6 \<and> channels out = 1 \<and> depth out = CV_8U)"
proof -
  have c: "conforme_opencv env_exemple"
    by (auto simp: conforme_opencv_def env_exemple_def split: if_splits)
  have f: "files monde_exemple ''/data/frag_eroded_0007.ppm'' = Some [4, 6, 3, 9, 9]"
    by (simp add: monde_exemple_def)
  have d: "imdecode env_exemple [4, 6, 3, 9, 9]
       = Inr (Some \<lparr>rows = 4, cols = 6, channels = 3, depth = CV_8U, samples = []\<rparr>)"
    by (simp add: env_exemple_def)
  obtain r w' where e: "extraire_texture_gabor env_exemple ''/data/frag_eroded_0007.ppm'' 31 5
      (np_pi / 4) 10 (1 / 2) monde_exemple = (r, w')"
    by (cases "extraire_texture_gabor env_exemple ''/data/frag_eroded_0007.ppm'' 31 5
      (np_pi / 4) 10 (1 / 2) monde_exemple")
  have "\<exists>out. r = Inr (''frag_eroded_0007.ppm'', Some out)"
    using e by (auto simp: extraire_defs env_exemple_def monde_exemple_def basename_def sep_def
          COLOR_BGR2GRAY_def split: if_splits)
  then obtain out where r: "r = Inr (''frag_eroded_0007.ppm'', Some out)" by blast
  from filtre_conserve_dimensions[OF c f d e[unfolded r]]
  have "rows out = 4 \<and> cols out = 6 \<and> channels out = 1 \<and> depth out = CV_8U" by simp
  with c f d e r show ?thesis by blast
qed

text \<open>
  Where the name has no dot but the one of its extension, as the names
  \<open>frag_eroded_NNNN.ppm\<close> have, replacing \<open>.ppm\<close> changes the extension and nothing else.
\<close>

lemma str_replace_sans_point:
  assumes "CHR ''.'' \<notin> set stem"
  shows "str_replace ''.ppm'' ''.png'' (stem @ ''.ppm'') = stem @ ''.png''"
  using assms by (induction stem) auto

lemma nom_sortie_extension:
  assumes "CHR ''.'' \<notin> set stem"
  shows "nom_sortie (stem @ ''.ppm'') = ''texture_'' @ stem @ ''.png''"
  using str_replace_sans_point[OF assms] by (simp add: nom_sortie_def)

text \<open>
  C2. The output name is \<open>texture_\<close> followed by the input name in which every
  \<open>.ppm\<close> has become \<open>.png\<close>, not only the extension. The name \<open>frag_eroded_0007.ppm\<close>
  gives \<open>texture_frag_eroded_0007.png\<close>; the name \<open>frag_eroded_a.ppm_b.ppm\<close>, which matches
  the pattern, gives \<open>texture_frag_eroded_a.png_b.png\<close>, and the runner writes there; two
  different inputs, \<open>frag_eroded_a.ppm.ppm\<close> and \<open>frag_eroded_a.png.ppm\<close>, get the same
  output name.
\<close>

theorem nom_sortie_remplace_tous_les_ppm:
  "nom_sortie ''frag_eroded_0007.ppm'' = ''texture_frag_eroded_0007.png''
   \<and> nom_sortie (basename ''/data/frag_eroded_a.ppm_b.ppm'') = ''texture_frag_eroded_a.png_b.png''
   \<and> map fst (ecritures (trace (snd (balayer_et_traiter_images env_exemple ''/data''
                                         monde_double_ppm))))
       = [''/data/textures_traitees/texture_frag_eroded_a.png_b.png'']
   \<and> nom_sortie ''frag_eroded_a.ppm.ppm'' = nom_sortie ''frag_eroded_a.png.ppm''"
  by code_simp

text \<open>
  C5. The runner sorts what \<open>glob\<close> returned for the pattern \<open>frag_eroded_*.ppm\<close> under
  the root: \<open>image_files\<close> is sorted (strings compare character by character, a prefix
  first) and has the same elements. The filter step is called on these paths in this
  order: the paths of its calls are a prefix of the sorted list, and the whole list when
  the run returns normally.
\<close>

theorem traitement_dans_l_ordre_trie:
  "sorted (image_files E repertoire_racine w)
   \<and> mset (image_files E repertoire_racine w)
       = mset (glob_fn E (files w) (dirs w) (join repertoire_racine ''frag_eroded_*.ppm''))
   \<and> (\<exists>faits.
         map fst (appels_extraire (trace (snd (balayer_et_traiter_images E repertoire_racine w))))
           = map fst (appels_extraire (trace w)) @ faits
       \<and> prefix faits (image_files E repertoire_racine w)
       \<and> (fst (balayer_et_traiter_images E repertoire_racine w) = Inr () \<longrightarrow>
            faits = image_files E repertoire_racine w))"
proof -
  from balayer_evenements[of E repertoire_racine w] obtain evs faits where h:
    "trace (snd (balayer_et_traiter_images E repertoire_racine w)) = trace w @ evs"
    "prefix faits (image_files E repertoire_racine w)"
    "fst (balayer_et_traiter_images E repertoire_racine w) = Inr () \<longrightarrow>
       faits = image_files E repertoire_racine w"
    "appels_extraire evs = map (\<lambda>p. (p, 31, 5, np_pi / 4, 10, 1 / 2)) faits"
    by blast
  have "map fst (appels_extraire (trace (snd (balayer_et_traiter_images E repertoire_racine w))))
           = map fst (appels_extraire (trace w)) @ faits"
    using h(1,4) by (simp add: comp_def)
  with h(2,3) show ?thesis
    by (auto simp: image_files_def chemin_recherche_def)
qed

theorem traitement_dans_l_ordre_trie_witness:
  "glob_fn env_exemple (files monde_exemple) (dirs monde_exemple)
       (join ''/data'' ''frag_eroded_*.ppm'')
     = [''/data/frag_eroded_0007.ppm'', ''/data/frag_eroded_0002.ppm'']
   \<and> fst (balayer_et_traiter_images env_exemple ''/data'' monde_exemple) = Inr ()
   \<and> map fst (appels_extraire (trace (snd (balayer_et_traiter_images env_exemple ''/data''
                                               monde_exemple))))
       = [''/data/frag_eroded_0002.ppm'', ''/data/frag_eroded_0007.ppm'']"
proof -
  have g: "glob_fn env_exemple (files monde_exemple) (dirs monde_exemple)
       (join ''/data'' ''frag_eroded_*.ppm'')
     = [''/data/frag_eroded_0007.ppm'', ''/data/frag_eroded_0002.ppm'']"
    by code_simp
  have r: "fst (balayer_et_traiter_images env_exemple ''/data'' monde_exemple) = Inr ()"
    by code_simp
  have l: "image_files env_exemple ''/data'' monde_exemple
     = [''/data/frag_eroded_0002.ppm'', ''/data/frag_eroded_0007.ppm'']"
    by code_simp
  have t: "trace monde_exemple = []" by (simp add: monde_exemple_def)
  from traitement_dans_l_ordre_trie[of env_exemple "''/data''" monde_exemple] r
  have "map fst (appels_extraire (trace (snd (balayer_et_traiter_images env_exemple ''/data''
                                               monde_exemple))))
       = [''/data/frag_eroded_0002.ppm'', ''/data/frag_eroded_0007.ppm'']"
    unfolding l t by auto
  with g r show ?thesis by blast
qed



text \<open>
  C10. When the filter step gives no image for any of the paths found, and so also when
  every file of a batch that is not empty fails, the run returns normally, the files and
  the directories are what they were, and the trace has no call of \<open>os.makedirs\<close> and no
  call of \<open>cv2.imwrite\<close>: the output directory is not created.
\<close>

theorem aucun_succes_aucune_creation:
  assumes "\<forall>p\<in>set (glob_fn E (files w) (dirs w) (chemin_recherche repertoire_racine)).
             fst (extraire_texture_gabor_kw E p gabor_params w) = Inr (basename p, None)"
  shows "fst (balayer_et_traiter_images E repertoire_racine w) = Inr ()
       \<and> files (snd (balayer_et_traiter_images E repertoire_racine w)) = files w
       \<and> dirs (snd (balayer_et_traiter_images E repertoire_racine w)) = dirs w
       \<and> creations (trace (snd (balayer_et_traiter_images E repertoire_racine w)))
           = creations (trace w)
       \<and> ecritures (trace (snd (balayer_et_traiter_images E repertoire_racine w)))
           = ecritures (trace w)"
proof (cases "image_files E repertoire_racine w = []")
  case True
  show ?thesis unfolding balayer_vide[OF True] by (simp add: projection_defs)
next
  case False
  let ?L = "image_files E repertoire_racine w" and ?w0 = "monde_depart E repertoire_racine w"
  have a: "\<forall>p\<in>set ?L. fst (extraire_texture_gabor_kw E p gabor_params w) = Inr (basename p, None)"
    using assms by (simp add: image_files_def)
  have "files ?w0 = files w" by simp
  from boucle_sans_succes[OF a this, of repertoire_racine]
  show ?thesis
    using balayer_non_vide[OF False] by (simp add: projection_defs)
qed

theorem aucun_succes_aucune_creation_witness:
  "glob_fn env_exemple (files monde_tout_corrompu) (dirs monde_tout_corrompu)
       (chemin_recherche ''/data'')
     = [''/data/frag_eroded_0007.ppm'', ''/data/frag_eroded_0002.ppm'']
   \<and> fst (extraire_texture_gabor_kw env_exemple ''/data/frag_eroded_0007.ppm'' gabor_params
            monde_tout_corrompu) = Inr (''frag_eroded_0007.ppm'', None)
   \<and> fst (extraire_texture_gabor_kw env_exemple ''/data/frag_eroded_0002.ppm'' gabor_params
            monde_tout_corrompu) = Inr (''frag_eroded_0002.ppm'', None)
   \<and> fst (balayer_et_traiter_images env_exemple ''/data'' monde_tout_corrompu) = Inr ()
   \<and> files (snd (balayer_et_traiter_images env_exemple ''/data'' monde_tout_corrompu))
       = files monde_tout_corrompu
   \<and> dirs (snd (balayer_et_traiter_images env_exemple ''/data'' monde_tout_corrompu)) = {''/data''}
   \<and> creations (trace (snd (balayer_et_traiter_images env_exemple ''/data'' monde_tout_corrompu)))
       = []"
proof -
  have g: "glob_fn env_exemple (files monde_tout_corrompu) (dirs monde_tout_corrompu)
       (chemin_recherche ''/data'')
     = [''/data/frag_eroded_0007.ppm'', ''/data/frag_eroded_0002.ppm'']"
    by code_simp
  have e7: "fst (extraire_texture_gabor_kw env_exemple ''/data/frag_eroded_0007.ppm'' gabor_params
            monde_tout_corrompu) = Inr (''frag_eroded_0007.ppm'', None)"
    by code_simp
  have e2: "fst (extraire_texture_gabor_kw env_exemple ''/data/frag_eroded_0002.ppm'' gabor_params
            monde_tout_corrompu) = Inr (''frag_eroded_0002.ppm'', None)"
    by code_simp
  have b: "basename ''/data/frag_eroded_0007.ppm'' = ''frag_eroded_0007.ppm''"
    "basename ''/data/frag_eroded_0002.ppm'' = ''frag_eroded_0002.ppm''"
    by code_simp+
  have h: "\<forall>p\<in>set (glob_fn env_exemple (files monde_tout_corrompu) (dirs monde_tout_corrompu)
                     (chemin_recherche ''/data'')).
             fst (extraire_texture_gabor_kw env_exemple p gabor_params monde_tout_corrompu)
               = Inr (basename p, None)"
    unfolding g using e7 e2 b by simp
  have d: "dirs monde_tout_corrompu = {''/data''}" "creations (trace monde_tout_corrompu) = []"
    by (simp_all add: monde_tout_corrompu_def)
  from aucun_succes_aucune_creation[OF h] g e7 e2 d show ?thesis by simp
qed

subsection \<open>Failures and the batch\<close>








subsection \<open>Running the batch twice\<close>

lemma seconde_execution:
  assumes g: "glob_fn E (files w1) (dirs w1) (chemin_recherche racine)
                = glob_fn E (files w) (dirs w) (chemin_recherche racine)"
    and f: "\<forall>p\<in>set (glob_fn E (files w) (dirs w) (chemin_recherche racine)). files w1 p = files w p"
    and w1: "w1 = snd (balayer_et_traiter_images E racine w)"
  shows "fst (balayer_et_traiter_images E racine w1) = fst (balayer_et_traiter_images E racine w)
       \<and> files (snd (balayer_et_traiter_images E racine w1)) = files w1
       \<and> dirs (snd (balayer_et_traiter_images E racine w1)) = dirs w1
       \<and> (\<exists>evs. trace w1 = trace w @ evs
              \<and> trace (snd (balayer_et_traiter_images E racine w1)) = trace w1 @ evs
              \<and> length (ecritures evs)
                  \<le> length (glob_fn E (files w) (dirs w) (chemin_recherche racine))
              \<and> set (map fst (ecritures evs))
                  \<subseteq> chemin_sortie racine
                      ` set (glob_fn E (files w) (dirs w) (chemin_recherche racine)))"
proof -
  let ?G = "glob_fn E (files w) (dirs w) (chemin_recherche racine)"
  let ?L = "image_files E racine w"
  let ?D = "dossiers_sortie racine"
  have L1: "image_files E racine w1 = ?L" using g by (simp add: image_files_def)
  have sL: "set ?L = set ?G" "length ?L = length ?G" by (simp_all add: image_files_def)
  show ?thesis
  proof (cases "?L = []")
    case True
    have a: "balayer_et_traiter_images E racine w
           = (Inr (), print (Aucune_image racine) (emit (Call_glob (chemin_recherche racine)) w))"
      by (rule balayer_vide[OF True])
    have b: "balayer_et_traiter_images E racine w1
           = (Inr (), print (Aucune_image racine) (emit (Call_glob (chemin_recherche racine)) w1))"
      by (rule balayer_vide) (simp add: L1 True)
    have t: "trace w1 = trace w @ [Call_glob (chemin_recherche racine), Print (Aucune_image racine)]"
      unfolding w1 a by simp
    show ?thesis
      unfolding b using t a
      by (intro conjI exI[of _ "[Call_glob (chemin_recherche racine), Print (Aucune_image racine)]"])
         (simp_all add: projection_defs)
  next
    case False
    let ?w0 = "monde_depart E racine w" and ?w10 = "monde_depart E racine w1"
    let ?b = "boucle E racine ?L ?w0" and ?b1 = "boucle E racine ?L ?w10"
    note n = balayer_non_vide[OF False]
    have False1: "image_files E racine w1 \<noteq> []" using False L1 by simp
    note n1 = balayer_non_vide[OF False1, unfolded L1]
    note c = boucle_cadre[of E racine ?L ?w0]
    have fw1: "files w1 = files (snd ?b)" and dw1: "dirs w1 = dirs (snd ?b)"
      unfolding w1 using n(2,3) by simp_all
    have h1: "\<forall>p\<in>set ?L. files ?w0 p = files ?w10 p"
      using f sL(1) by simp
    have h2: "\<forall>q\<in>?D. (files ?w0 q = None) = (files ?w10 q = None)"
    proof
      fix q assume q: "q \<in> ?D"
      have "q \<notin> chemin_sortie racine ` set ?L"
        using q chemin_sortie_hors_dossiers[of racine] by auto
      with c have "files (snd ?b) q = files ?w0 q" by blast
      then show "(files ?w0 q = None) = (files ?w10 q = None)" using fw1 by simp
    qed
    have h3: "dirs ?w0 \<union> ?D = dirs ?w10 \<union> ?D"
      using c dw1 by auto
    from boucle_deux_mondes[OF h1 h2 h3, of E] obtain evs where d:
      "fst ?b = fst ?b1"
      "trace (snd ?b) = trace ?w0 @ evs"
      "trace (snd ?b1) = trace ?w10 @ evs"
      "\<forall>x. files (snd ?b) x = files (snd ?b1) x
           \<or> (files (snd ?b) x = files ?w0 x \<and> files (snd ?b1) x = files ?w10 x)"
      "(dirs (snd ?b) = dirs ?w0 \<and> dirs (snd ?b1) = dirs ?w10)
        \<or> (dirs (snd ?b) = dirs ?w0 \<union> ?D \<and> dirs (snd ?b1) = dirs ?w10 \<union> ?D)"
      by blast
    from boucle_evenements[of E racine ?L ?w0] d(2) have e:
      "set (map fst (ecritures evs)) \<subseteq> chemin_sortie racine ` set ?L"
      "length (ecritures evs) \<le> length ?L"
      by auto
    define evs' where "evs' = [Call_glob (chemin_recherche racine), Print (Demarrage (length ?L))]
      @ evs @ (case fst ?b of Inl e \<Rightarrow> [] | Inr u \<Rightarrow> [Print Traitement_termine])"
    have t1: "trace w1 = trace w @ evs'"
      unfolding w1 n(4) d(2) by (simp add: evs'_def)
    have t2: "trace (snd (balayer_et_traiter_images E racine w1)) = trace w1 @ evs'"
      unfolding n1(4) d(3) using d(1) by (simp add: evs'_def L1)
    have p: "ecritures evs' = ecritures evs"
      by (simp add: evs'_def projection_defs split: sum.splits)
    have r: "fst (balayer_et_traiter_images E racine w1) = fst (balayer_et_traiter_images E racine w)"
      unfolding n(1) n1(1) using d(1) by simp
    have fl: "files (snd (balayer_et_traiter_images E racine w1)) = files w1"
      unfolding n1(2) using d(4) fw1 by (intro ext) (metis monde_depart_simps(1))
    have dl: "dirs (snd (balayer_et_traiter_images E racine w1)) = dirs w1"
      unfolding n1(3) using d(5) dw1 by auto
    have "trace w1 = trace w @ evs'
              \<and> trace (snd (balayer_et_traiter_images E racine w1)) = trace w1 @ evs'
              \<and> length (ecritures evs') \<le> length ?G
              \<and> set (map fst (ecritures evs')) \<subseteq> chemin_sortie racine ` set ?G"
      unfolding p using t1 t2 e sL by simp
    with r fl dl show ?thesis by blast
  qed
qed

text \<open>
  C8. Run the batch, then run it again on what the first run left, with the same files
  found by \<open>glob\<close> and the same bytes in them. The second run ends as the first did,
  performs the same calls and prints the same lines, and leaves every file and directory
  as the first run left it: the outputs are the same bytes. Each image gives at most one
  image write, to a path that depends on the root and on the path of the image only, so
  that processing it again writes the same file.
\<close>

theorem deux_executions_memes_sorties:
  assumes "balayer_et_traiter_images E racine w = (r1, w1)"
    and "balayer_et_traiter_images E racine w1 = (r2, w2)"
    and "glob_fn E (files w1) (dirs w1) (chemin_recherche racine)
           = glob_fn E (files w) (dirs w) (chemin_recherche racine)"
    and "\<forall>p\<in>set (glob_fn E (files w) (dirs w) (chemin_recherche racine)). files w1 p = files w p"
  shows "r2 = r1 \<and> files w2 = files w1 \<and> dirs w2 = dirs w1
       \<and> (\<exists>evs. trace w1 = trace w @ evs \<and> trace w2 = trace w1 @ evs
              \<and> length (ecritures evs)
                  \<le> length (glob_fn E (files w) (dirs w) (chemin_recherche racine))
              \<and> set (map fst (ecritures evs))
                  \<subseteq> chemin_sortie racine
                      ` set (glob_fn E (files w) (dirs w) (chemin_recherche racine)))
       \<and> (\<forall>image_path w'. \<exists>evs.
              trace (snd (corps_boucle E racine image_path w')) = trace w' @ evs
            \<and> length (ecritures evs) \<le> 1
            \<and> set (map fst (ecritures evs)) \<subseteq> {chemin_sortie racine image_path})"
proof -
  have w1: "w1 = snd (balayer_et_traiter_images E racine w)" using assms(1) by simp
  have a: "r2 = r1 \<and> files w2 = files w1 \<and> dirs w2 = dirs w1
       \<and> (\<exists>evs. trace w1 = trace w @ evs \<and> trace w2 = trace w1 @ evs
              \<and> length (ecritures evs)
                  \<le> length (glob_fn E (files w) (dirs w) (chemin_recherche racine))
              \<and> set (map fst (ecritures evs))
                  \<subseteq> chemin_sortie racine
                      ` set (glob_fn E (files w) (dirs w) (chemin_recherche racine)))"
    using seconde_execution[OF assms(3,4) w1] assms(1,2) by simp
  have b: "\<forall>image_path w'. \<exists>evs.
              trace (snd (corps_boucle E racine image_path w')) = trace w' @ evs
            \<and> length (ecritures evs) \<le> 1
            \<and> set (map fst (ecritures evs)) \<subseteq> {chemin_sortie racine image_path}"
  proof (intro allI)
    fix image_path w'
    from corps_evenements[of E racine image_path w'] obtain evs where
      "trace (snd (corps_boucle E racine image_path w')) = trace w' @ evs"
      "set (map fst (ecritures evs)) \<subseteq> {chemin_sortie racine image_path}"
      "length (ecritures evs) + length (echecs evs) \<le> 1"
      by blast
    then show "\<exists>evs.
              trace (snd (corps_boucle E racine image_path w')) = trace w' @ evs
            \<and> length (ecritures evs) \<le> 1
            \<and> set (map fst (ecritures evs)) \<subseteq> {chemin_sortie racine image_path}"
      by (intro exI[of _ evs]) simp
  qed
  from a b show ?thesis by blast
qed

theorem deux_executions_memes_sorties_witness:
  "glob_fn env_exemple (files monde_apres) (dirs monde_apres) (chemin_recherche ''/data'')
     = glob_fn env_exemple (files monde_exemple) (dirs monde_exemple) (chemin_recherche ''/data'')
   \<and> glob_fn env_exemple (files monde_exemple) (dirs monde_exemple) (chemin_recherche ''/data'')
       = [''/data/frag_eroded_0007.ppm'', ''/data/frag_eroded_0002.ppm'']
   \<and> files monde_apres ''/data/frag_eroded_0007.ppm''
       = files monde_exemple ''/data/frag_eroded_0007.ppm''
   \<and> files monde_apres ''/data/frag_eroded_0002.ppm''
       = files monde_exemple ''/data/frag_eroded_0002.ppm''
   \<and> files monde_apres ''/data/textures_traitees/texture_frag_eroded_0007.png'' = Some [4, 6]
   \<and> fst (balayer_et_traiter_images env_exemple ''/data'' monde_apres)
       = fst (balayer_et_traiter_images env_exemple ''/data'' monde_exemple)
   \<and> files (snd (balayer_et_traiter_images env_exemple ''/data'' monde_apres)) = files monde_apres
   \<and> dirs (snd (balayer_et_traiter_images env_exemple ''/data'' monde_apres)) = dirs monde_apres"
proof -
  have g: "glob_fn env_exemple (files monde_apres) (dirs monde_apres) (chemin_recherche ''/data'')
     = glob_fn env_exemple (files monde_exemple) (dirs monde_exemple) (chemin_recherche ''/data'')"
    by code_simp
  have ge: "glob_fn env_exemple (files monde_exemple) (dirs monde_exemple)
      (chemin_recherche ''/data'')
       = [''/data/frag_eroded_0007.ppm'', ''/data/frag_eroded_0002.ppm'']"
    by code_simp
  have fe: "files monde_apres ''/data/frag_eroded_0007.ppm''
       = files monde_exemple ''/data/frag_eroded_0007.ppm''"
    "files monde_apres ''/data/frag_eroded_0002.ppm''
       = files monde_exemple ''/data/frag_eroded_0002.ppm''"
    by code_simp+
  have f: "\<forall>p\<in>set (glob_fn env_exemple (files monde_exemple) (dirs monde_exemple)
                     (chemin_recherche ''/data'')).
         files monde_apres p = files monde_exemple p"
    unfolding ge using fe by simp
  have o: "files monde_apres ''/data/textures_traitees/texture_frag_eroded_0007.png'' = Some [4, 6]"
    by code_simp
  have r1: "balayer_et_traiter_images env_exemple ''/data'' monde_exemple
      = (fst (balayer_et_traiter_images env_exemple ''/data'' monde_exemple), monde_apres)"
    by (simp add: monde_apres_def)
  have r2: "balayer_et_traiter_images env_exemple ''/data'' monde_apres
      = (fst (balayer_et_traiter_images env_exemple ''/data'' monde_apres),
         snd (balayer_et_traiter_images env_exemple ''/data'' monde_apres))"
    by simp
  from deux_executions_memes_sorties[OF r1 r2 g f] g ge fe o show ?thesis by blast
qed

end
